theory Spec2Isabelle
  imports Main "HOL-Library.Sublist"
begin

section \<open>Data model\<close>

text \<open>
  The authentication core of the LMS backend: the JWT helpers (utils/jwt), the
  \<open>protect\<close>, \<open>authorize\<close> and \<open>optionalAuth\<close> middleware, the User model with its
  schema, pre-save hook and methods, and the auth controller.

  The TypeScript runs on Express, Mongoose, bcryptjs and jsonwebtoken. The two
  cryptographic libraries and the process environment are parameters of the model (the
  record \<open>env\<close>); the document store is an explicit list of user records that the
  handlers take and return.
\<close>

subsection \<open>types/index.ts\<close>

datatype UserRole = STUDENT | INSTRUCTOR | ADMIN

text \<open>The string value of each enum member; at run time a role is this string.\<close>

fun UserRole_value :: "UserRole \<Rightarrow> string" where
  "UserRole_value STUDENT = ''student''"
| "UserRole_value INSTRUCTOR = ''instructor''"
| "UserRole_value ADMIN = ''admin''"

text \<open>\<open>Object.values(UserRole)\<close>.\<close>

definition UserRole_values :: "string list" where
  "UserRole_values = map UserRole_value [STUDENT, INSTRUCTOR, ADMIN]"

text \<open>
  \<open>JWTPayload\<close>, which is also the shape of \<open>AuthRequest.user\<close>. The role is the string
  that the token carries: \<open>jwt.verify\<close> returns it unchecked (the code only casts).
\<close>

record JWTPayload =
  p_id :: string
  p_role :: string
  p_email :: string

text \<open>
  A string is the list of its UTF-16 code units, and \<open>char\<close> holds the code units below
  U+0100: the strings of the model are the JavaScript strings over these code units.
\<close>

text \<open>
  A JSON value: what \<open>express.json\<close> parses a body into, and what \<open>res.json\<close> is given.
  An object is the list of its keys in order, each key once; a number is an integer.
\<close>

datatype json =
    JNull
  | JBool bool
  | JNum int
  | JStr string
  | JArr "json list"
  | JObj "(string \<times> json) list"

text \<open>
  \<open>req.body\<close> as the handlers destructure it. A field is \<open>None\<close> when the body does not
  have it (\<open>undefined\<close>). The password is the JSON value that was sent: \<open>login\<close> hands
  it as it is to \<open>bcrypt.compare\<close>, which tells a string from any other value. The other
  fields only ever reach Mongoose, which casts them to the strings of the schema; they
  are strings here, and other JSON values in their place are outside this model.
\<close>

record Body =
  b_firstName :: "string option"
  b_lastName :: "string option"
  b_email :: "string option"
  b_password :: "json option"
  b_role :: "string option"
  b_bio :: "string option"
  b_avatar :: "string option"

text \<open>
  \<open>AuthRequest\<close>: the Authorization header (\<open>req.headers.authorization\<close>, a string or
  \<open>undefined\<close>), the identity attached by the middleware (\<open>req.user\<close>) and the body.
\<close>

record AuthRequest =
  authorization :: "string option"
  user :: "JWTPayload option"
  body :: Body

subsection \<open>Responses\<close>

text \<open>\<open>res.status(code).json(body)\<close>.\<close>

type_synonym response = "nat \<times> json"

text \<open>
  What a middleware does with a request: it either sends a response and returns, or it
  calls \<open>next()\<close>, handing the (possibly mutated) request to the rest of the chain.
\<close>

datatype outcome = Respond nat json | Next AuthRequest

text \<open>The status of an outcome, when it is a response.\<close>

fun outcome_status :: "outcome \<Rightarrow> nat option" where
  "outcome_status (Respond code b) = Some code"
| "outcome_status (Next r) = None"

text \<open>Whether the downstream handler was invoked.\<close>

fun next_called :: "outcome \<Rightarrow> bool" where
  "next_called (Respond code b) = False"
| "next_called (Next r) = True"

fun json_field :: "string \<Rightarrow> json \<Rightarrow> json option" where
  "json_field k (JObj kvs) = map_of kvs k"
| "json_field k j = None"

text \<open>Whether a key occurs in a JSON value, at any depth.\<close>

fun has_key :: "string \<Rightarrow> json \<Rightarrow> bool" where
  "has_key k (JObj kvs) = (\<exists>p \<in> set kvs. fst p = k \<or> has_key k (snd p))"
| "has_key k (JArr js) = (\<exists>j \<in> set js. has_key k j)"
| "has_key k j = False"

subsection \<open>Errors and the environment\<close>

text \<open>
  The exceptions of the program. \<open>error_message\<close> is the \<open>message\<close> property that the
  500 responses copy into their body.
\<close>

datatype error =
    ValidationError "(string \<times> string) list"
  | MongoServerError string
  | DocumentNotFoundError string
  | CastError string
  | LibraryError string

text \<open>\<open>xs.join(sep)\<close>.\<close>

fun join :: "string \<Rightarrow> string list \<Rightarrow> string" where
  "join sep [] = []"
| "join sep [x] = x"
| "join sep (x # y # ys) = x @ sep @ join sep (y # ys)"

fun error_message :: "error \<Rightarrow> string" where
  "error_message (ValidationError es) =
     ''User validation failed: '' @ join '', '' (map (\<lambda>(path, msg). path @ '': '' @ msg) es)"
| "error_message (MongoServerError m) = m"
| "error_message (DocumentNotFoundError m) = m"
| "error_message (CastError m) = m"
| "error_message (LibraryError m) = m"

text \<open>
  Everything the code takes from outside itself:
  \<^item> \<open>process.env.JWT_SECRET\<close> and \<open>process.env.JWT_EXPIRE\<close>;
  \<^item> \<open>jwt.sign(payload, secret, {expiresIn})\<close> and \<open>jwt.verify(token, secret)\<close>, either of
    which may throw;
  \<^item> \<open>bcrypt.genSalt(rounds)\<close> (the salt drawn for this request), \<open>bcrypt.hash(s, salt)\<close>
    and \<open>bcrypt.compare(s, hash)\<close>;
  \<^item> the ObjectId generated for a new document, and the clock of the timestamps;
  \<^item> \<open>Number.prototype.toString\<close>, by which Mongoose casts a number to a string;
  \<^item> whether the driver's \<open>ObjectId\<close> accepts a string, by which Mongoose casts the
    \<open>_id\<close> of a query.
\<close>

record env =
  JWT_SECRET :: "string option"
  JWT_EXPIRE :: "string option"
  jwt_sign :: "JWTPayload \<Rightarrow> string \<Rightarrow> string \<Rightarrow> error + string"
  jwt_verify :: "string \<Rightarrow> string \<Rightarrow> error + JWTPayload"
  bcrypt_genSalt :: "nat \<Rightarrow> string"
  bcrypt_hash :: "string \<Rightarrow> string \<Rightarrow> string"
  bcrypt_compare :: "string \<Rightarrow> string \<Rightarrow> bool"
  new_ObjectId :: string
  now :: string
  Number_toString :: "int \<Rightarrow> string"
  ObjectId_isValid :: "string \<Rightarrow> bool"

text \<open>\<open>x || dflt\<close> on an optional string: \<open>undefined\<close> and the empty string are falsy.\<close>

fun or_default :: "string option \<Rightarrow> string \<Rightarrow> string" where
  "or_default None dflt = dflt"
| "or_default (Some s) dflt = (if s = [] then dflt else s)"

text \<open>\<open>!x\<close> negated: whether an optional string is truthy.\<close>

fun truthy :: "string option \<Rightarrow> bool" where
  "truthy None = False"
| "truthy (Some s) = (s \<noteq> [])"

text \<open>
  The same for a field that holds any JSON value: \<open>undefined\<close>, \<open>null\<close>, \<open>false\<close>,
  \<open>0\<close> and the empty string are falsy, every array and object is truthy.
\<close>

fun truthy_value :: "json option \<Rightarrow> bool" where
  "truthy_value None = False"
| "truthy_value (Some JNull) = False"
| "truthy_value (Some (JBool b)) = b"
| "truthy_value (Some (JNum n)) = (n \<noteq> 0)"
| "truthy_value (Some (JStr s)) = (s \<noteq> [])"
| "truthy_value (Some (JArr xs)) = True"
| "truthy_value (Some (JObj kvs)) = True"

text \<open>\<open>typeof\<close> of a JSON value.\<close>

fun typeof :: "json \<Rightarrow> string" where
  "typeof JNull = ''object''"
| "typeof (JBool b) = ''boolean''"
| "typeof (JNum n) = ''number''"
| "typeof (JStr s) = ''string''"
| "typeof (JArr xs) = ''object''"
| "typeof (JObj kvs) = ''object''"

section \<open>utils/jwt\<close>

definition secret :: "env \<Rightarrow> string" where
  "secret e = or_default (JWT_SECRET e) ''default-secret-key''"

definition expiresIn :: "env \<Rightarrow> string" where
  "expiresIn e = or_default (JWT_EXPIRE e) ''7d''"

definition generateToken :: "env \<Rightarrow> JWTPayload \<Rightarrow> error + string" where
  "generateToken e payload = jwt_sign e payload (secret e) (expiresIn e)"

text \<open>\<open>verifyToken\<close>: whatever \<open>jwt.verify\<close> throws is caught and becomes \<open>null\<close>.\<close>

definition verifyToken :: "env \<Rightarrow> string \<Rightarrow> JWTPayload option" where
  "verifyToken e token =
     (case jwt_verify e token (secret e) of
        Inr decoded \<Rightarrow> Some decoded
      | Inl err \<Rightarrow> None)"

text \<open>\<open>extractToken\<close>: \<open>startsWith('Bearer ')\<close>, then \<open>substring(7)\<close>.\<close>

definition extractToken :: "string option \<Rightarrow> string option" where
  "extractToken authHeader =
     (case authHeader of
        None \<Rightarrow> None
      | Some h \<Rightarrow>
          if h = [] \<or> \<not> prefix ''Bearer '' h then None
          else Some (drop 7 h))"

section \<open>middleware/auth\<close>

definition not_authorized :: json where
  "not_authorized = JObj [(''success'', JBool False),
     (''message'', JStr ''Not authorized. Please login to access this resource.'')]"

definition invalid_token :: json where
  "invalid_token = JObj [(''success'', JBool False),
     (''message'', JStr ''Invalid or expired token. Please login again.'')]"

definition authentication_failed :: json where
  "authentication_failed = JObj [(''success'', JBool False),
     (''message'', JStr ''Authentication failed'')]"

text \<open>
  The body of the \<open>try\<close> block of \<open>protect\<close>, in the exception monad: \<open>Inl\<close> is an
  exception that reaches the \<open>catch\<close> clause. \<open>!token\<close> holds of \<open>null\<close> and of the empty
  string, which is what \<open>substring(7)\<close> leaves of the header \<open>Bearer \<close> with nothing after it.
\<close>

definition protect_try :: "env \<Rightarrow> AuthRequest \<Rightarrow> error + outcome" where
  "protect_try e req =
     (case extractToken (authorization req) of
        None \<Rightarrow> Inr (Respond 401 not_authorized)
      | Some token \<Rightarrow>
          if token = [] then Inr (Respond 401 not_authorized)
          else
            (case verifyToken e token of
               None \<Rightarrow> Inr (Respond 401 invalid_token)
             | Some decoded \<Rightarrow> Inr (Next (req\<lparr>user := Some decoded\<rparr>))))"

definition protect :: "env \<Rightarrow> AuthRequest \<Rightarrow> outcome" where
  "protect e req =
     (case protect_try e req of
        Inr out \<Rightarrow> out
      | Inl err \<Rightarrow> Respond 401 authentication_failed)"




definition optionalAuth_try :: "env \<Rightarrow> AuthRequest \<Rightarrow> error + outcome" where
  "optionalAuth_try e req =
     (case extractToken (authorization req) of
        None \<Rightarrow> Inr (Next req)
      | Some token \<Rightarrow>
          if token = [] then Inr (Next req)
          else
            (case verifyToken e token of
               Some decoded \<Rightarrow> Inr (Next (req\<lparr>user := Some decoded\<rparr>))
             | None \<Rightarrow> Inr (Next req)))"

definition optionalAuth :: "env \<Rightarrow> AuthRequest \<Rightarrow> outcome" where
  "optionalAuth e req =
     (case optionalAuth_try e req of
        Inr out \<Rightarrow> out
      | Inl err \<Rightarrow> Next req)"

section \<open>models/User\<close>

subsection \<open>Strings\<close>

text \<open>
  The schema's \<open>trim\<close> and \<open>lowercase\<close> setters are \<open>String.prototype.trim\<close> and
  \<open>String.prototype.toLowerCase\<close>. Of the code units below U+0100, \<open>trim\<close> strips
  the white space and line terminators U+0009 to U+000D, U+0020 and the no-break space
  U+00A0; \<open>toLowerCase\<close> moves the letters A to Z and the capitals U+00C0 to U+00DE, the
  multiplication sign U+00D7 apart, 32 places up and leaves the rest. \<open>\w\<close> of the
  email pattern is the ASCII letters, the digits and the underscore.
\<close>

definition is_space :: "char \<Rightarrow> bool" where
  "is_space c =
     (c \<in> set [CHR 0x09, CHR 0x0A, CHR 0x0B, CHR 0x0C, CHR 0x0D, CHR 0x20, CHR 0xA0])"

definition trim :: "string \<Rightarrow> string" where
  "trim s = rev (dropWhile is_space (rev (dropWhile is_space s)))"

definition lower_char :: "char \<Rightarrow> char" where
  "lower_char c =
     (let n = (of_char c :: nat) in
      if (65 \<le> n \<and> n \<le> 90) \<or> (192 \<le> n \<and> n \<le> 222 \<and> n \<noteq> 215)
      then char_of (n + 32) else c)"

definition toLowerCase :: "string \<Rightarrow> string" where
  "toLowerCase s = map lower_char s"

definition is_word :: "char \<Rightarrow> bool" where
  "is_word c =
     (let n = (of_char c :: nat) in
      (48 \<le> n \<and> n \<le> 57) \<or> (65 \<le> n \<and> n \<le> 90) \<or> n = 95 \<or> (97 \<le> n \<and> n \<le> 122))"

subsection \<open>The email pattern\<close>

text \<open>
  Regular expressions with character classes, matched by derivatives. The pattern of the
  schema is anchored at both ends and has neither back-references nor look-around, so
  \<open>RegExp.test\<close> on it is membership of the whole string in the pattern's language.
\<close>

datatype rexp =
    Nothing
  | Eps
  | Class "char \<Rightarrow> bool"
  | Alt rexp rexp
  | Seq rexp rexp
  | Star rexp

fun nullable :: "rexp \<Rightarrow> bool" where
  "nullable Nothing = False"
| "nullable Eps = True"
| "nullable (Class P) = False"
| "nullable (Alt r s) = (nullable r \<or> nullable s)"
| "nullable (Seq r s) = (nullable r \<and> nullable s)"
| "nullable (Star r) = True"

fun deriv :: "char \<Rightarrow> rexp \<Rightarrow> rexp" where
  "deriv c Nothing = Nothing"
| "deriv c Eps = Nothing"
| "deriv c (Class P) = (if P c then Eps else Nothing)"
| "deriv c (Alt r s) = Alt (deriv c r) (deriv c s)"
| "deriv c (Seq r s) =
     (if nullable r then Alt (Seq (deriv c r) s) (deriv c s) else Seq (deriv c r) s)"
| "deriv c (Star r) = Seq (deriv c r) (Star r)"

fun matches :: "rexp \<Rightarrow> string \<Rightarrow> bool" where
  "matches r [] = nullable r"
| "matches r (c # cs) = matches (deriv c r) cs"

definition Plus :: "rexp \<Rightarrow> rexp" where
  "Plus r = Seq r (Star r)"

definition Opt :: "rexp \<Rightarrow> rexp" where
  "Opt r = Alt r Eps"

text \<open>\<open>/^\w+([\.-]?\w+)*@\w+([\.-]?\w+)*(\.\w{2,3})+$/\<close>\<close>

definition email_pattern :: rexp where
  "email_pattern =
     (let w = Class is_word;
          dot_or_dash = Class (\<lambda>c. c = CHR ''.'' \<or> c = CHR ''-'');
          dot = Class (\<lambda>c. c = CHR ''.'');
          at = Class (\<lambda>c. c = CHR ''@'');
          words = Seq (Plus w) (Star (Seq (Opt dot_or_dash) (Plus w)))
      in Seq words (Seq at (Seq words (Plus (Seq dot (Seq w (Seq w (Opt w))))))))"

subsection \<open>Documents\<close>

text \<open>
  A user document, in the store and in memory. \<open>password\<close> is \<open>None\<close> in a document that
  was loaded without it (\<open>select: false\<close> in the schema); the two timestamps are \<open>None\<close>
  until the first save. \<open>u_id\<close> is \<open>_id\<close>. The version key \<open>__v\<close> is not kept: nothing in
  the program changes it.
\<close>

record IUser =
  u_id :: string
  firstName :: string
  lastName :: string
  email :: string
  password :: "string option"
  role :: string
  avatar :: string
  bio :: "string option"
  enrolledCourses :: "string list"
  createdCourses :: "string list"
  isVerified :: bool
  resetPasswordToken :: "string option"
  resetPasswordExpire :: "string option"
  createdAt :: "string option"
  updatedAt :: "string option"

text \<open>
  A Mongoose document in memory: its fields, whether it has never been saved, and the
  paths that were set to a new value since it was loaded.
\<close>

record Document =
  doc :: IUser
  isNew :: bool
  modifiedPaths :: "string list"

type_synonym store = "IUser list"

definition isModified :: "Document \<Rightarrow> string \<Rightarrow> bool" where
  "isModified d path = (path \<in> set (modifiedPaths d))"

definition markModified :: "string \<Rightarrow> Document \<Rightarrow> Document" where
  "markModified path d =
     (if isModified d path then d else d\<lparr>modifiedPaths := modifiedPaths d @ [path]\<rparr>)"

text \<open>
  Assignments to the paths that the controller writes. The setter of the schema runs
  first (\<open>trim\<close> on the names); the path is marked modified when the value changes.
\<close>

definition set_firstName :: "string \<Rightarrow> Document \<Rightarrow> Document" where
  "set_firstName v d =
     (let v' = trim v in
      if firstName (doc d) = v' then d
      else markModified ''firstName'' (d\<lparr>doc := (doc d)\<lparr>firstName := v'\<rparr>\<rparr>))"

definition set_lastName :: "string \<Rightarrow> Document \<Rightarrow> Document" where
  "set_lastName v d =
     (let v' = trim v in
      if lastName (doc d) = v' then d
      else markModified ''lastName'' (d\<lparr>doc := (doc d)\<lparr>lastName := v'\<rparr>\<rparr>))"

definition set_bio :: "string \<Rightarrow> Document \<Rightarrow> Document" where
  "set_bio v d =
     (if bio (doc d) = Some v then d
      else markModified ''bio'' (d\<lparr>doc := (doc d)\<lparr>bio := Some v\<rparr>\<rparr>))"

definition set_avatar :: "string \<Rightarrow> Document \<Rightarrow> Document" where
  "set_avatar v d =
     (if avatar (doc d) = v then d
      else markModified ''avatar'' (d\<lparr>doc := (doc d)\<lparr>avatar := v\<rparr>\<rparr>))"

subsection \<open>The schema's validators\<close>

text \<open>
  One entry per failing path, with the message the schema gives; \<open>required\<close> is checked
  first on a path, then the other validators in the order of the schema. The validators
  see the values after the setters. Every path that the document holds is validated; a
  password that was not loaded and not set is not.
\<close>

definition validate_firstName :: "IUser \<Rightarrow> (string \<times> string) list" where
  "validate_firstName u =
     (if firstName u = [] then [(''firstName'', ''First name is required'')]
      else if length (firstName u) > 50
      then [(''firstName'', ''First name cannot exceed 50 characters'')]
      else [])"

definition validate_lastName :: "IUser \<Rightarrow> (string \<times> string) list" where
  "validate_lastName u =
     (if lastName u = [] then [(''lastName'', ''Last name is required'')]
      else if length (lastName u) > 50
      then [(''lastName'', ''Last name cannot exceed 50 characters'')]
      else [])"

definition validate_email :: "IUser \<Rightarrow> (string \<times> string) list" where
  "validate_email u =
     (if email u = [] then [(''email'', ''Email is required'')]
      else if \<not> matches email_pattern (email u)
      then [(''email'', ''Please provide a valid email address'')]
      else [])"

definition validate_password :: "Document \<Rightarrow> (string \<times> string) list" where
  "validate_password d =
     (case password (doc d) of
        None \<Rightarrow>
          if isNew d \<or> isModified d ''password''
          then [(''password'', ''Password is required'')] else []
      | Some p \<Rightarrow>
          if p = [] then [(''password'', ''Password is required'')]
          else if length p < 6
          then [(''password'', ''Password must be at least 6 characters'')]
          else [])"

definition validate_role :: "IUser \<Rightarrow> (string \<times> string) list" where
  "validate_role u =
     (if role u \<notin> set UserRole_values
      then [(''role'', ''`'' @ role u @ ''` is not a valid enum value for path `role`.'')]
      else [])"

definition validate_bio :: "IUser \<Rightarrow> (string \<times> string) list" where
  "validate_bio u =
     (case bio u of
        None \<Rightarrow> []
      | Some b \<Rightarrow>
          if length b > 500 then [(''bio'', ''Bio cannot exceed 500 characters'')] else [])"

definition validate :: "Document \<Rightarrow> (string \<times> string) list" where
  "validate d =
     validate_firstName (doc d) @ validate_lastName (doc d) @ validate_email (doc d)
       @ validate_password d @ validate_role (doc d) @ validate_bio (doc d)"

subsection \<open>Saving\<close>

text \<open>\<open>timestamps: true\<close>: set on a new document, and on a modified one.\<close>

definition timestamps :: "env \<Rightarrow> Document \<Rightarrow> Document" where
  "timestamps e d =
     (if isNew d then
        markModified ''updatedAt'' (markModified ''createdAt''
          (d\<lparr>doc := (doc d)\<lparr>createdAt := Some (now e), updatedAt := Some (now e)\<rparr>\<rparr>))
      else if modifiedPaths d \<noteq> [] then
        markModified ''updatedAt'' (d\<lparr>doc := (doc d)\<lparr>updatedAt := Some (now e)\<rparr>\<rparr>)
      else d)"

text \<open>
  \<open>UserSchema.pre('save')\<close>: the hook returns at once unless the password was modified;
  otherwise it replaces the password by its hash under a fresh salt. An exception of the
  \<open>try\<close> block is passed to \<open>next\<close> and fails the save.
\<close>

definition pre_save :: "env \<Rightarrow> Document \<Rightarrow> error + Document" where
  "pre_save e d =
     (if \<not> isModified d ''password'' then Inr d
      else
        (case password (doc d) of
           None \<Rightarrow> Inl (LibraryError ''Illegal arguments: undefined, string'')
         | Some p \<Rightarrow>
             (let salt = bcrypt_genSalt e 10 in
              Inr (d\<lparr>doc := (doc d)\<lparr>password := Some (bcrypt_hash e p salt)\<rparr>\<rparr>))))"

text \<open>The update that a save sends for a stored record: the modified paths only.\<close>

definition write_modified :: "Document \<Rightarrow> IUser \<Rightarrow> IUser" where
  "write_modified d u =
     u\<lparr>firstName := (if isModified d ''firstName'' then firstName (doc d) else firstName u),
       lastName := (if isModified d ''lastName'' then lastName (doc d) else lastName u),
       email := (if isModified d ''email'' then email (doc d) else email u),
       password := (if isModified d ''password'' then password (doc d) else password u),
       role := (if isModified d ''role'' then role (doc d) else role u),
       avatar := (if isModified d ''avatar'' then avatar (doc d) else avatar u),
       bio := (if isModified d ''bio'' then bio (doc d) else bio u),
       createdAt := (if isModified d ''createdAt'' then createdAt (doc d) else createdAt u),
       updatedAt := (if isModified d ''updatedAt'' then updatedAt (doc d) else updatedAt u)\<rparr>"

definition duplicate_key :: "string \<Rightarrow> error" where
  "duplicate_key k = MongoServerError (''E11000 duplicate key error: '' @ k)"

text \<open>
  \<open>document.save()\<close>: validation, then the pre-save hooks (the timestamps, registered
  with the schema, before the password hook), then the write. A new document is
  inserted, and the unique indexes on \<open>_id\<close> and \<open>email\<close> refuse a duplicate; a loaded
  document updates the record with its \<open>_id\<close>. The result is the document as it is in
  memory after the save, and the new store.
\<close>

definition save :: "env \<Rightarrow> store \<Rightarrow> Document \<Rightarrow> error + (Document \<times> store)" where
  "save e st d =
     (case validate d of
        x # xs \<Rightarrow> Inl (ValidationError (x # xs))
      | [] \<Rightarrow>
          (case pre_save e (timestamps e d) of
             Inl err \<Rightarrow> Inl err
           | Inr d' \<Rightarrow>
               if isNew d' then
                 (if u_id (doc d') \<in> set (map u_id st) then Inl (duplicate_key ''_id'')
                  else if email (doc d') \<in> set (map email st)
                  then Inl (duplicate_key ''email'')
                  else Inr (d'\<lparr>isNew := False, modifiedPaths := []\<rparr>, st @ [doc d']))
               else if modifiedPaths d' = [] then Inr (d', st)
               else if u_id (doc d') \<notin> set (map u_id st)
               then Inl (DocumentNotFoundError ''No document found for query'')
               else Inr (d'\<lparr>modifiedPaths := []\<rparr>,
                         map (\<lambda>u. if u_id u = u_id (doc d') then write_modified d' u else u) st)))"

text \<open>
  Mongoose's cast of a value to a String path: \<open>null\<close> stays \<open>null\<close>, a string is
  taken as it is, a number and a boolean by their \<open>toString\<close>, an object by its \<open>_id\<close>
  when that is a non-empty string; any other object and every array is a \<open>CastError\<close>,
  which the document keeps for its validation.
\<close>

definition castString :: "env \<Rightarrow> json \<Rightarrow> unit + string option" where
  "castString e v =
     (case v of
        JNull \<Rightarrow> Inr None
      | JStr s \<Rightarrow> Inr (Some s)
      | JNum n \<Rightarrow> Inr (Some (Number_toString e n))
      | JBool b \<Rightarrow> Inr (Some (if b then ''true'' else ''false''))
      | JArr xs \<Rightarrow> Inl ()
      | JObj kvs \<Rightarrow>
          (case map_of kvs ''_id'' of
             Some (JStr i) \<Rightarrow> if i \<noteq> [] then Inr (Some i) else Inl ()
           | _ \<Rightarrow> Inl ()))"

text \<open>
  \<open>User.create({firstName, lastName, email, password, role})\<close>: a new document with the
  setters and the defaults of the schema applied, then saved. The password is the
  result of the cast.
\<close>

definition new_User ::
  "env \<Rightarrow> string \<Rightarrow> string \<Rightarrow> string \<Rightarrow> string option \<Rightarrow> string \<Rightarrow> Document" where
  "new_User e fn ln em pw r =
     \<lparr>doc = \<lparr>u_id = new_ObjectId e, firstName = trim fn, lastName = trim ln,
             email = trim (toLowerCase em), password = pw, role = r,
             avatar = ''https://via.placeholder.com/150'', bio = None,
             enrolledCourses = [], createdCourses = [], isVerified = False,
             resetPasswordToken = None, resetPasswordExpire = None,
             createdAt = None, updatedAt = None\<rparr>,
      isNew = True,
      modifiedPaths = [''firstName'', ''lastName'', ''email'', ''password'', ''role'']\<rparr>"

text \<open>
  The validation error of a document whose password did not cast: the cast error of the
  path (Mongoose's message also renders the value), then the errors of the other paths.
\<close>

definition cast_failed :: "Document \<Rightarrow> error" where
  "cast_failed d =
     ValidationError
       ((''password'', ''Cast to string failed at path password'')
        # validate_firstName (doc d) @ validate_lastName (doc d) @ validate_email (doc d)
        @ validate_role (doc d) @ validate_bio (doc d))"

definition User_create ::
  "env \<Rightarrow> store \<Rightarrow> string \<Rightarrow> string \<Rightarrow> string \<Rightarrow> json \<Rightarrow> string \<Rightarrow> error + (Document \<times> store)" where
  "User_create e st fn ln em pw r =
     (case castString e pw of
        Inl u \<Rightarrow> Inl (cast_failed (new_User e fn ln em None r))
      | Inr p \<Rightarrow> save e st (new_User e fn ln em p r))"

text \<open>
  Queries. A loaded document has no password unless the query selects it
  (\<open>.select('+password')\<close>). Mongoose casts the email of a filter with the setters of the
  path, so the query compares the trimmed, lower-case email with the stored ones.
\<close>

definition hydrate :: "bool \<Rightarrow> IUser \<Rightarrow> Document" where
  "hydrate selectPassword u =
     \<lparr>doc = (if selectPassword then u else u\<lparr>password := None\<rparr>),
      isNew = False, modifiedPaths = []\<rparr>"

definition findOne_email :: "bool \<Rightarrow> store \<Rightarrow> string \<Rightarrow> Document option" where
  "findOne_email selectPassword st em =
     map_option (hydrate selectPassword) (find (\<lambda>u. email u = trim (toLowerCase em)) st)"

text \<open>
  \<open>User.findById(req.user?.id)\<close>. \<open>findById(undefined)\<close> finds nothing; an id that
  does not cast to an ObjectId rejects the query with a \<open>CastError\<close>.
\<close>

definition quoted :: "string \<Rightarrow> string" where
  "quoted s = CHR 0x22 # s @ [CHR 0x22]"

definition findById :: "env \<Rightarrow> store \<Rightarrow> string option \<Rightarrow> error + Document option" where
  "findById e st i =
     (case i of
        None \<Rightarrow> Inr None
      | Some k \<Rightarrow>
          if \<not> ObjectId_isValid e k
          then Inl (CastError (''Cast to ObjectId failed for value '' @ quoted k
                 @ '' (type string) at path '' @ quoted ''_id'' @ '' for model '' @ quoted ''User''))
          else Inr (map_option (hydrate False) (find (\<lambda>u. u_id u = k) st)))"

subsection \<open>Methods\<close>

text \<open>
  \<open>comparePassword\<close> is \<open>bcrypt.compare(candidatePassword, this.password)\<close>, and bcryptjs
  rejects with \<open>Illegal arguments\<close> unless both are strings. The candidate is whatever
  the body held; the stored hash is \<open>undefined\<close> in a document loaded without it.
\<close>

definition illegal_arguments :: "json \<Rightarrow> string option \<Rightarrow> error" where
  "illegal_arguments candidatePassword h =
     LibraryError (''Illegal arguments: '' @ typeof candidatePassword @ '', ''
       @ (case h of None \<Rightarrow> ''undefined'' | Some x \<Rightarrow> ''string''))"

definition comparePassword :: "env \<Rightarrow> Document \<Rightarrow> json \<Rightarrow> error + bool" where
  "comparePassword e d candidatePassword =
     (case candidatePassword of
        JStr s \<Rightarrow>
          (case password (doc d) of
             None \<Rightarrow> Inl (illegal_arguments candidatePassword None)
           | Some h \<Rightarrow> Inr (bcrypt_compare e s h))
      | _ \<Rightarrow> Inl (illegal_arguments candidatePassword (password (doc d))))"

definition token_payload :: "Document \<Rightarrow> JWTPayload" where
  "token_payload d = \<lparr>p_id = u_id (doc d), p_role = role (doc d), p_email = email (doc d)\<rparr>"

definition getSignedJwtToken :: "env \<Rightarrow> Document \<Rightarrow> error + string" where
  "getSignedJwtToken e d = jwt_sign e (token_payload d) (secret e) (expiresIn e)"

section \<open>controllers/authController\<close>

text \<open>The string of a body field that a truthiness test has shown to be there.\<close>

fun value_of :: "string option \<Rightarrow> string" where
  "value_of None = []"
| "value_of (Some s) = s"

text \<open>The JSON value of a body field that a truthiness test has shown to be there.\<close>

fun json_of :: "json option \<Rightarrow> json" where
  "json_of None = JNull"
| "json_of (Some v) = v"

text \<open>A property whose value may be \<open>undefined\<close> is left out of the JSON text.\<close>

fun optional_field :: "string \<Rightarrow> string option \<Rightarrow> (string \<times> json) list" where
  "optional_field k None = []"
| "optional_field k (Some s) = [(k, JStr s)]"

definition failure :: "string \<Rightarrow> json" where
  "failure msg = JObj [(''success'', JBool False), (''message'', JStr msg)]"

definition failure_with_error :: "string \<Rightarrow> error \<Rightarrow> json" where
  "failure_with_error msg err =
     JObj [(''success'', JBool False), (''message'', JStr msg),
           (''error'', JStr (error_message err))]"

definition register_view :: "IUser \<Rightarrow> json" where
  "register_view u =
     JObj [(''id'', JStr (u_id u)), (''firstName'', JStr (firstName u)),
           (''lastName'', JStr (lastName u)), (''email'', JStr (email u)),
           (''role'', JStr (role u)), (''avatar'', JStr (avatar u))]"

definition login_view :: "IUser \<Rightarrow> json" where
  "login_view u =
     JObj ([(''id'', JStr (u_id u)), (''firstName'', JStr (firstName u)),
            (''lastName'', JStr (lastName u)), (''email'', JStr (email u)),
            (''role'', JStr (role u)), (''avatar'', JStr (avatar u))]
           @ optional_field ''bio'' (bio u))"

definition getMe_view :: "IUser \<Rightarrow> json" where
  "getMe_view u =
     JObj ([(''id'', JStr (u_id u)), (''firstName'', JStr (firstName u)),
            (''lastName'', JStr (lastName u)), (''email'', JStr (email u)),
            (''role'', JStr (role u)), (''avatar'', JStr (avatar u))]
           @ optional_field ''bio'' (bio u)
           @ [(''enrolledCourses'', JArr (map JStr (enrolledCourses u))),
              (''createdCourses'', JArr (map JStr (createdCourses u)))]
           @ optional_field ''createdAt'' (createdAt u))"

text \<open>
  \<open>toJSON\<close> of a whole document, which is what \<open>data: { user }\<close> serialises: every field
  that the document has in memory.
\<close>

definition toJSON :: "IUser \<Rightarrow> json" where
  "toJSON u =
     JObj ([(''_id'', JStr (u_id u)), (''firstName'', JStr (firstName u)),
            (''lastName'', JStr (lastName u)), (''email'', JStr (email u))]
           @ optional_field ''password'' (password u)
           @ [(''role'', JStr (role u)), (''avatar'', JStr (avatar u))]
           @ optional_field ''bio'' (bio u)
           @ [(''enrolledCourses'', JArr (map JStr (enrolledCourses u))),
              (''createdCourses'', JArr (map JStr (createdCourses u))),
              (''isVerified'', JBool (isVerified u))]
           @ optional_field ''resetPasswordToken'' (resetPasswordToken u)
           @ optional_field ''resetPasswordExpire'' (resetPasswordExpire u)
           @ optional_field ''createdAt'' (createdAt u)
           @ optional_field ''updatedAt'' (updatedAt u)
           @ [(''__v'', JNum 0)])"

definition registered :: "IUser \<Rightarrow> string \<Rightarrow> json" where
  "registered u token =
     JObj [(''success'', JBool True), (''message'', JStr ''User registered successfully''),
           (''data'', JObj [(''user'', register_view u), (''token'', JStr token)])]"

text \<open>
  \<open>register\<close>. Each handler takes the store and returns its response with the store as
  the handler leaves it. A rejected promise of the store or of \<open>getSignedJwtToken\<close> is
  the \<open>Inl\<close> branch, which the \<open>catch\<close> clause turns into the 500 response.
\<close>

definition register :: "env \<Rightarrow> store \<Rightarrow> AuthRequest \<Rightarrow> response \<times> store" where
  "register e st req =
     (let fn = b_firstName (body req); ln = b_lastName (body req);
          em = b_email (body req); pw = b_password (body req); r = b_role (body req)
      in
      if \<not> truthy fn \<or> \<not> truthy ln \<or> \<not> truthy em \<or> \<not> truthy_value pw
      then ((400, failure ''Please provide all required fields''), st)
      else
        (case findOne_email False st (value_of em) of
           Some existingUser \<Rightarrow> ((400, failure ''User with this email already exists''), st)
         | None \<Rightarrow>
             (case User_create e st (value_of fn) (value_of ln) (value_of em) (json_of pw)
                     (or_default r ''student'') of
                Inl err \<Rightarrow> ((500, failure_with_error ''Error registering user'' err), st)
              | Inr (u, st') \<Rightarrow>
                  (case getSignedJwtToken e u of
                     Inl err \<Rightarrow> ((500, failure_with_error ''Error registering user'' err), st')
                   | Inr token \<Rightarrow> ((201, registered (doc u) token), st')))))"

definition logged_in :: "IUser \<Rightarrow> string \<Rightarrow> json" where
  "logged_in u token =
     JObj [(''success'', JBool True), (''message'', JStr ''Login successful''),
           (''data'', JObj [(''user'', login_view u), (''token'', JStr token)])]"

text \<open>\<open>login\<close> only reads the store.\<close>

definition login :: "env \<Rightarrow> store \<Rightarrow> AuthRequest \<Rightarrow> response" where
  "login e st req =
     (let em = b_email (body req); pw = b_password (body req) in
      if \<not> truthy em \<or> \<not> truthy_value pw
      then (400, failure ''Please provide email and password'')
      else
        (case findOne_email True st (value_of em) of
           None \<Rightarrow> (401, failure ''Invalid credentials'')
         | Some u \<Rightarrow>
             (case comparePassword e u (json_of pw) of
                Inl err \<Rightarrow> (500, failure_with_error ''Error logging in'' err)
              | Inr isPasswordMatch \<Rightarrow>
                  if \<not> isPasswordMatch then (401, failure ''Invalid credentials'')
                  else
                    (case getSignedJwtToken e u of
                       Inl err \<Rightarrow> (500, failure_with_error ''Error logging in'' err)
                     | Inr token \<Rightarrow> (200, logged_in (doc u) token)))))"

definition getMe :: "env \<Rightarrow> store \<Rightarrow> AuthRequest \<Rightarrow> response" where
  "getMe e st req =
     (case findById e st (map_option p_id (user req)) of
        Inl err \<Rightarrow> (500, failure_with_error ''Error fetching user data'' err)
      | Inr None \<Rightarrow> (404, failure ''User not found'')
      | Inr (Some u) \<Rightarrow>
          (200, JObj [(''success'', JBool True),
                      (''data'', JObj [(''user'', getMe_view (doc u))])]))"

text \<open>
  \<open>updateProfile\<close>: the three truthiness tests and the test of \<open>bio\<close> against \<open>undefined\<close>,
  in the order of the source, then the save.
\<close>

definition apply_profile :: "Body \<Rightarrow> Document \<Rightarrow> Document" where
  "apply_profile b d0 =
     (let d1 = (if truthy (b_firstName b) then set_firstName (value_of (b_firstName b)) d0 else d0);
          d2 = (if truthy (b_lastName b) then set_lastName (value_of (b_lastName b)) d1 else d1);
          d3 = (case b_bio b of None \<Rightarrow> d2 | Some v \<Rightarrow> set_bio v d2);
          d4 = (if truthy (b_avatar b) then set_avatar (value_of (b_avatar b)) d3 else d3)
      in d4)"

definition updateProfile :: "env \<Rightarrow> store \<Rightarrow> AuthRequest \<Rightarrow> response \<times> store" where
  "updateProfile e st req =
     (case findById e st (map_option p_id (user req)) of
        Inl err \<Rightarrow> ((500, failure_with_error ''Error updating profile'' err), st)
      | Inr None \<Rightarrow> ((404, failure ''User not found''), st)
      | Inr (Some u) \<Rightarrow>
          (case save e st (apply_profile (body req) u) of
             Inl err \<Rightarrow> ((500, failure_with_error ''Error updating profile'' err), st)
           | Inr (u', st') \<Rightarrow>
               ((200, JObj [(''success'', JBool True),
                            (''message'', JStr ''Profile updated successfully''),
                            (''data'', JObj [(''user'', toJSON (doc u'))])]), st')))"

definition logout :: "AuthRequest \<Rightarrow> response" where
  "logout req =
     (200, JObj [(''success'', JBool True), (''message'', JStr ''Logged out successfully'')])"

text \<open>The five operations of the controller, as one step on the store.\<close>

datatype operation =
    Register AuthRequest
  | Login AuthRequest
  | GetMe AuthRequest
  | UpdateProfile AuthRequest
  | Logout AuthRequest

fun step :: "env \<Rightarrow> store \<Rightarrow> operation \<Rightarrow> response \<times> store" where
  "step e st (Register req) = register e st req"
| "step e st (Login req) = (login e st req, st)"
| "step e st (GetMe req) = (getMe e st req, st)"
| "step e st (UpdateProfile req) = updateProfile e st req"
| "step e st (Logout req) = (logout req, st)"

section \<open>Notions used by the properties\<close>

text \<open>
  The record that a successful \<open>User.create\<close> leaves in the store: the new document
  after the setters, with the timestamps and with the password replaced by its hash.
\<close>

definition stored_user :: "env \<Rightarrow> string \<Rightarrow> string \<Rightarrow> string \<Rightarrow> string \<Rightarrow> string \<Rightarrow> IUser" where
  "stored_user e fn ln em pw r =
     (doc (new_User e fn ln em (Some pw) r))
       \<lparr>password := Some (bcrypt_hash e pw (bcrypt_genSalt e 10)),
        createdAt := Some (now e), updatedAt := Some (now e)\<rparr>"

text \<open>
  The profile update as the specification words it: each of the four fields that is
  present in the input is applied, whatever its value.
\<close>

definition profile_if_present :: "Body \<Rightarrow> IUser \<Rightarrow> IUser" where
  "profile_if_present b u =
     u\<lparr>firstName := (case b_firstName b of None \<Rightarrow> firstName u | Some v \<Rightarrow> v),
       lastName := (case b_lastName b of None \<Rightarrow> lastName u | Some v \<Rightarrow> v),
       bio := (case b_bio b of None \<Rightarrow> bio u | Some v \<Rightarrow> Some v),
       avatar := (case b_avatar b of None \<Rightarrow> avatar u | Some v \<Rightarrow> v)\<rparr>"

text \<open>
  The profile update as a function on the stored record: the names and the avatar are
  applied when they are truthy (the names trimmed), the bio whenever it is present, and
  \<open>updatedAt\<close> moves to the time of the save when one of the four changed.
\<close>

definition profile_fields :: "Body \<Rightarrow> IUser \<Rightarrow> IUser" where
  "profile_fields b u =
     u\<lparr>firstName := (if truthy (b_firstName b) then trim (value_of (b_firstName b)) else firstName u),
       lastName := (if truthy (b_lastName b) then trim (value_of (b_lastName b)) else lastName u),
       bio := (case b_bio b of None \<Rightarrow> bio u | Some v \<Rightarrow> Some v),
       avatar := (if truthy (b_avatar b) then value_of (b_avatar b) else avatar u)\<rparr>"

definition updated_profile :: "env \<Rightarrow> Body \<Rightarrow> IUser \<Rightarrow> IUser" where
  "updated_profile e b u =
     (if profile_fields b u = u then u else (profile_fields b u)\<lparr>updatedAt := Some (now e)\<rparr>)"

text \<open>
  The invariant of the store on passwords: each record holds the hash of one plaintext
  under one salt, \<open>creds\<close> giving the plaintext and the salt of each \<open>_id\<close>.
\<close>

definition hashed_once :: "env \<Rightarrow> (string \<Rightarrow> string \<times> string) \<Rightarrow> store \<Rightarrow> bool" where
  "hashed_once e creds st =
     list_all (\<lambda>u. password u = Some (bcrypt_hash e (fst (creds (u_id u))) (snd (creds (u_id u))))) st"

section \<open>A concrete environment\<close>

text \<open>
  Stand-ins for the libraries, on which the properties are evaluated: a signer and a
  verifier that share a table of two payloads, a hash that writes the reversed
  plaintext after the salt, a number printer that knows one number, and ObjectIds of
  24 hexadecimal digits.
\<close>

definition example_admin :: JWTPayload where
  "example_admin = \<lparr>p_id = ''65f1a2b3c4d5e6f708192a02'', p_role = ''admin'', p_email = ''bob@example.com''\<rparr>"

definition example_student :: JWTPayload where
  "example_student = \<lparr>p_id = ''65f1a2b3c4d5e6f708192a01'', p_role = ''student'', p_email = ''ann@example.com''\<rparr>"

definition example_env :: env where
  "example_env =
     \<lparr>JWT_SECRET = None, JWT_EXPIRE = None,
      jwt_sign = (\<lambda>p s x.
        if p = example_admin then Inr (s @ ''/admin-token'')
        else if p = example_student then Inr (s @ ''/student-token'')
        else Inl (LibraryError ''payload not in the table'')),
      jwt_verify = (\<lambda>t s.
        if t = s @ ''/admin-token'' then Inr example_admin
        else if t = s @ ''/student-token'' then Inr example_student
        else Inl (LibraryError ''invalid signature'')),
      bcrypt_genSalt = (\<lambda>rounds. ''salt''),
      bcrypt_hash = (\<lambda>s salt. salt @ ''$'' @ rev s),
      bcrypt_compare = (\<lambda>s h. h = ''salt$'' @ rev s),
      new_ObjectId = ''65f1a2b3c4d5e6f708192a02'',
      now = ''2024-01-02'',
      Number_toString = (\<lambda>n. if n = 123456 then ''123456'' else ''0''),
      ObjectId_isValid = (\<lambda>k. length k = 24 \<and> set k \<subseteq> set ''0123456789abcdefABCDEF'')\<rparr>"

definition ann :: IUser where
  "ann = \<lparr>u_id = ''65f1a2b3c4d5e6f708192a01'', firstName = ''Ann'', lastName = ''Lee'', email = ''ann@example.com'',
          password = Some ''salt$1terces'', role = ''student'',
          avatar = ''https://via.placeholder.com/150'', bio = Some ''Hello'',
          enrolledCourses = [], createdCourses = [], isVerified = False,
          resetPasswordToken = None, resetPasswordExpire = None,
          createdAt = Some ''2024-01-01'', updatedAt = Some ''2024-01-01''\<rparr>"

definition example_store :: store where
  "example_store = [ann]"

definition no_body :: Body where
  "no_body = \<lparr>b_firstName = None, b_lastName = None, b_email = None, b_password = None,
              b_role = None, b_bio = None, b_avatar = None\<rparr>"

text \<open>A registration that asks for the admin role, sent without any credentials.\<close>

definition register_bob :: AuthRequest where
  "register_bob =
     \<lparr>authorization = None, user = None,
      body = no_body\<lparr>b_firstName := Some ''Bob'', b_lastName := Some ''Ray'',
                     b_email := Some ''Bob@Example.com'', b_password := Some (JStr ''hunter22''),
                     b_role := Some ''admin''\<rparr>\<rparr>"

text \<open>
  A second registration under the email of the stored record, written in capitals after
  a no-break space.
\<close>

definition register_ann_again :: AuthRequest where
  "register_ann_again =
     \<lparr>authorization = None, user = None,
      body = no_body\<lparr>b_firstName := Some ''Anne'', b_lastName := Some ''Lee'',
                     b_email := Some (CHR 0xA0 # ''ANN@example.com''),
                     b_password := Some (JStr ''another1'')\<rparr>\<rparr>"

definition login_unknown :: AuthRequest where
  "login_unknown =
     \<lparr>authorization = None, user = None,
      body = no_body\<lparr>b_email := Some ''eve@example.com'', b_password := Some (JStr ''secret1'')\<rparr>\<rparr>"

definition login_wrong_password :: AuthRequest where
  "login_wrong_password =
     \<lparr>authorization = None, user = None,
      body = no_body\<lparr>b_email := Some ''ann@example.com'', b_password := Some (JStr ''secret2'')\<rparr>\<rparr>"

text \<open>Two logins whose password is the number 123456, not a string.\<close>

definition login_unknown_number :: AuthRequest where
  "login_unknown_number =
     \<lparr>authorization = None, user = None,
      body = no_body\<lparr>b_email := Some ''eve@example.com'', b_password := Some (JNum 123456)\<rparr>\<rparr>"

definition login_known_number :: AuthRequest where
  "login_known_number =
     \<lparr>authorization = None, user = None,
      body = no_body\<lparr>b_email := Some ''ann@example.com'', b_password := Some (JNum 123456)\<rparr>\<rparr>"

definition with_header :: "string option \<Rightarrow> AuthRequest" where
  "with_header h = \<lparr>authorization = h, user = None, body = no_body\<rparr>"

definition as_ann :: "Body \<Rightarrow> AuthRequest" where
  "as_ann b = \<lparr>authorization = None, user = Some example_student, body = b\<rparr>"

text \<open>
  Profile updates sent with the identity of the stored user; the new first name has a
  no-break space before it and a space after it.
\<close>

definition new_profile :: Body where
  "new_profile =
     no_body\<lparr>b_firstName := Some (CHR 0xA0 # ''Anna ''), b_bio := Some [], b_avatar := Some []\<rparr>"

definition clear_avatar :: Body where
  "clear_avatar = no_body\<lparr>b_avatar := Some []\<rparr>"

definition long_bio :: Body where
  "long_bio = no_body\<lparr>b_bio := Some (replicate 501 CHR ''x'')\<rparr>"

text \<open>The plaintext and the salt behind the hash of the stored user.\<close>

definition example_creds :: "string \<Rightarrow> string \<times> string" where
  "example_creds i = (''secret1'', ''salt'')"

section \<open>Properties of the middleware\<close>

lemma extractToken_Some:
  "extractToken a = Some token \<longleftrightarrow> a = Some (''Bearer '' @ token)"
  by (auto simp: extractToken_def prefix_def split: option.splits)

lemma extractToken_None:
  "extractToken a = None \<longleftrightarrow> (a = None \<or> (\<exists>h. a = Some h \<and> \<not> prefix ''Bearer '' h))"
  by (auto simp: extractToken_def split: option.splits)

lemma good_token:
  "verifyToken example_env ''default-secret-key/admin-token'' = Some example_admin"
  by (simp add: verifyToken_def example_env_def secret_def)

lemma forged_token: "verifyToken example_env ''forged'' = None"
  by (simp add: verifyToken_def example_env_def secret_def)

text \<open>
  Claim C3. A request without an Authorization header, or with one that does not start
  with \<open>Bearer \<close> (compared character by character, so \<open>bearer \<close> does not do), gets the 401
  \<open>Not authorized\<close> response and the next handler is not called. A request whose
  extracted token does not verify gets a 401 and the next handler is not called. The
  next handler is called only with a header \<open>Bearer \<close> followed by a token that verifies,
  and then the request it receives is the incoming one with the decoded payload as
  \<open>user\<close>; every non-empty token that verifies is let through in this way.
\<close>

theorem protect_rejects_or_attaches:
  "(authorization req = None \<or> (\<exists>h. authorization req = Some h \<and> \<not> prefix ''Bearer '' h)
      \<longrightarrow> protect e req = Respond 401 not_authorized)
   \<and> (\<forall>token. extractToken (authorization req) = Some token \<and> verifyToken e token = None
      \<longrightarrow> outcome_status (protect e req) = Some 401 \<and> \<not> next_called (protect e req))
   \<and> (\<forall>req'. protect e req = Next req'
      \<longrightarrow> (\<exists>token decoded. authorization req = Some (''Bearer '' @ token)
            \<and> verifyToken e token = Some decoded \<and> req' = req\<lparr>user := Some decoded\<rparr>))
   \<and> (\<forall>token decoded. authorization req = Some (''Bearer '' @ token) \<and> token \<noteq> []
            \<and> verifyToken e token = Some decoded
      \<longrightarrow> protect e req = Next (req\<lparr>user := Some decoded\<rparr>))"
proof (intro conjI allI impI)
  assume "authorization req = None \<or> (\<exists>h. authorization req = Some h \<and> \<not> prefix ''Bearer '' h)"
  then have "extractToken (authorization req) = None"
    by (simp add: extractToken_None)
  then show "protect e req = Respond 401 not_authorized"
    by (simp add: protect_def protect_try_def)
next
  fix token
  assume a: "extractToken (authorization req) = Some token \<and> verifyToken e token = None"
  then show "outcome_status (protect e req) = Some 401"
    by (simp add: protect_def protect_try_def)
  from a show "\<not> next_called (protect e req)"
    by (simp add: protect_def protect_try_def)
next
  fix req'
  assume "protect e req = Next req'"
  then obtain token decoded where
    "extractToken (authorization req) = Some token" "verifyToken e token = Some decoded"
    "req' = req\<lparr>user := Some decoded\<rparr>"
    by (auto simp: protect_def protect_try_def split: option.splits if_splits)
  then show "\<exists>token decoded. authorization req = Some (''Bearer '' @ token)
       \<and> verifyToken e token = Some decoded \<and> req' = req\<lparr>user := Some decoded\<rparr>"
    by (auto simp: extractToken_Some)
next
  fix token decoded
  assume a: "authorization req = Some (''Bearer '' @ token) \<and> token \<noteq> []
     \<and> verifyToken e token = Some decoded"
  then have "extractToken (authorization req) = Some token"
    by (simp add: extractToken_Some)
  with a show "protect e req = Next (req\<lparr>user := Some decoded\<rparr>)"
    by (simp add: protect_def protect_try_def)
qed

theorem protect_rejects_or_attaches_witness:
  "protect example_env (with_header None) = Respond 401 not_authorized
   \<and> protect example_env (with_header (Some ''bearer default-secret-key/admin-token''))
       = Respond 401 not_authorized
   \<and> outcome_status (protect example_env (with_header (Some ''Bearer forged''))) = Some 401
   \<and> \<not> next_called (protect example_env (with_header (Some ''Bearer forged'')))
   \<and> protect example_env (with_header (Some (''Bearer '' @ ''default-secret-key/admin-token'')))
       = Next ((with_header (Some (''Bearer '' @ ''default-secret-key/admin-token'')))
                 \<lparr>user := Some example_admin\<rparr>)"
proof (intro conjI)
  show "protect example_env (with_header None) = Respond 401 not_authorized"
    by (rule protect_rejects_or_attaches [THEN conjunct1, rule_format])
       (simp add: with_header_def)
  show "protect example_env (with_header (Some ''bearer default-secret-key/admin-token''))
       = Respond 401 not_authorized"
    by (rule protect_rejects_or_attaches [THEN conjunct1, rule_format])
       (simp add: with_header_def)
  have x: "extractToken (authorization (with_header (Some ''Bearer forged''))) = Some ''forged''
       \<and> verifyToken example_env ''forged'' = None"
    by (simp add: with_header_def extractToken_def forged_token)
  note r = protect_rejects_or_attaches [THEN conjunct2, THEN conjunct1, rule_format, OF x]
  from r show "outcome_status (protect example_env (with_header (Some ''Bearer forged''))) = Some 401"
    by (rule conjunct1)
  from r show "\<not> next_called (protect example_env (with_header (Some ''Bearer forged'')))"
    by (rule conjunct2)
  have y: "authorization (with_header (Some (''Bearer '' @ ''default-secret-key/admin-token'')))
        = Some (''Bearer '' @ ''default-secret-key/admin-token'')
      \<and> ''default-secret-key/admin-token'' \<noteq> []
      \<and> verifyToken example_env ''default-secret-key/admin-token'' = Some example_admin"
    by (simp add: with_header_def good_token)
  show "protect example_env (with_header (Some (''Bearer '' @ ''default-secret-key/admin-token'')))
       = Next ((with_header (Some (''Bearer '' @ ''default-secret-key/admin-token'')))
                 \<lparr>user := Some example_admin\<rparr>)"
    by (rule protect_rejects_or_attaches
          [THEN conjunct2, THEN conjunct2, THEN conjunct2, rule_format, OF y])
qed

text \<open>
  Claim C5. \<open>protect\<close> always ends in a 401 response or in the call of the next handler:
  it is a total function into these outcomes, so no exception leaves it, and it never
  answers 500. In particular, when \<open>jwt.verify\<close> throws on the extracted token, the
  exception is caught (by \<open>verifyToken\<close>, inside the middleware's own \<open>try\<close>) and the
  answer is a 401 without a call of the next handler.
\<close>

theorem protect_never_throws:
  "(outcome_status (protect e req) = Some 401 \<or> next_called (protect e req))
   \<and> outcome_status (protect e req) \<noteq> Some 500
   \<and> (\<forall>token err. extractToken (authorization req) = Some token
          \<and> jwt_verify e token (secret e) = Inl err
        \<longrightarrow> outcome_status (protect e req) = Some 401 \<and> \<not> next_called (protect e req))"
  by (auto simp: protect_def protect_try_def verifyToken_def split: option.splits sum.splits)

theorem protect_never_throws_witness:
  "jwt_verify example_env ''forged'' (secret example_env) = Inl (LibraryError ''invalid signature'')
   \<and> outcome_status (protect example_env (with_header (Some ''Bearer forged''))) = Some 401
   \<and> \<not> next_called (protect example_env (with_header (Some ''Bearer forged'')))"
proof -
  have v: "jwt_verify example_env ''forged'' (secret example_env) = Inl (LibraryError ''invalid signature'')"
    by (simp add: example_env_def secret_def)
  have x: "extractToken (authorization (with_header (Some ''Bearer forged''))) = Some ''forged''
      \<and> jwt_verify example_env ''forged'' (secret example_env) = Inl (LibraryError ''invalid signature'')"
    by (simp add: with_header_def extractToken_def v)
  note r = protect_never_throws [THEN conjunct2, THEN conjunct2, rule_format, OF x]
  from v r show ?thesis by (intro conjI) simp_all
qed





text \<open>
  Claim C6. \<open>optionalAuth\<close> never sends a response: for every request it calls the next
  handler. When the header yields a non-empty token that verifies, the request handed on
  carries the decoded payload as \<open>user\<close>; when there is no token, or the token is empty or
  does not verify (\<open>jwt.verify\<close> threw), the request is handed on as it came, so a request
  that had no identity still has none.
\<close>

theorem optionalAuth_never_rejects:
  "next_called (optionalAuth e req)
   \<and> outcome_status (optionalAuth e req) = None
   \<and> (\<forall>token decoded. extractToken (authorization req) = Some token \<and> token \<noteq> []
          \<and> verifyToken e token = Some decoded
        \<longrightarrow> optionalAuth e req = Next (req\<lparr>user := Some decoded\<rparr>))
   \<and> (extractToken (authorization req) = None
        \<or> (\<exists>token. extractToken (authorization req) = Some token
              \<and> (token = [] \<or> verifyToken e token = None))
        \<longrightarrow> optionalAuth e req = Next req)"
  by (auto simp: optionalAuth_def optionalAuth_try_def split: option.splits)

theorem optionalAuth_never_rejects_witness:
  "optionalAuth example_env (with_header None) = Next (with_header None)
   \<and> user (with_header None) = None
   \<and> optionalAuth example_env (with_header (Some ''Bearer forged''))
       = Next (with_header (Some ''Bearer forged''))
   \<and> optionalAuth example_env (with_header (Some (''Bearer '' @ ''default-secret-key/admin-token'')))
       = Next ((with_header (Some (''Bearer '' @ ''default-secret-key/admin-token'')))
                 \<lparr>user := Some example_admin\<rparr>)"
proof (intro conjI)
  note fail = optionalAuth_never_rejects [THEN conjunct2, THEN conjunct2, THEN conjunct2, rule_format]
  show "optionalAuth example_env (with_header None) = Next (with_header None)"
    by (rule fail) (simp add: with_header_def extractToken_def)
  show "user (with_header None) = None"
    by (simp add: with_header_def)
  have x: "extractToken (authorization (with_header (Some ''Bearer forged''))) = Some ''forged''"
    by (simp add: with_header_def extractToken_def)
  show "optionalAuth example_env (with_header (Some ''Bearer forged''))
       = Next (with_header (Some ''Bearer forged''))"
    by (rule fail) (use x forged_token in blast)
  have y: "extractToken (authorization (with_header (Some (''Bearer '' @ ''default-secret-key/admin-token''))))
        = Some ''default-secret-key/admin-token''
      \<and> ''default-secret-key/admin-token'' \<noteq> []
      \<and> verifyToken example_env ''default-secret-key/admin-token'' = Some example_admin"
    by (simp add: with_header_def extractToken_def good_token)
  show "optionalAuth example_env (with_header (Some (''Bearer '' @ ''default-secret-key/admin-token'')))
       = Next ((with_header (Some (''Bearer '' @ ''default-secret-key/admin-token'')))
                 \<lparr>user := Some example_admin\<rparr>)"
    by (rule optionalAuth_never_rejects
          [THEN conjunct2, THEN conjunct2, THEN conjunct1, rule_format, OF y])
qed

section \<open>Properties of registration\<close>

lemma findOne_email_None:
  "findOne_email sp st em = None \<longleftrightarrow> trim (toLowerCase em) \<notin> email ` set st"
  by (force simp: findOne_email_def find_None_iff)

lemma new_User_simps:
  "isNew (new_User e fn ln em pw r)"
  "isModified (new_User e fn ln em pw r) ''password''"
  "password (doc (new_User e fn ln em pw r)) = pw"
  "u_id (doc (new_User e fn ln em pw r)) = new_ObjectId e"
  "email (doc (new_User e fn ln em pw r)) = trim (toLowerCase em)"
  "role (doc (new_User e fn ln em pw r)) = r"
  by (simp_all add: new_User_def isModified_def)

lemma timestamps_new:
  "isNew d \<Longrightarrow> isNew (timestamps e d) \<and> isModified (timestamps e d) p = (isModified d p \<or> p = ''createdAt'' \<or> p = ''updatedAt'')
     \<and> doc (timestamps e d) = (doc d)\<lparr>createdAt := Some (now e), updatedAt := Some (now e)\<rparr>"
  by (auto simp: timestamps_def markModified_def isModified_def)

lemma pre_save_new_User:
  "pre_save e (timestamps e (new_User e fn ln em (Some pw) r)) = Inr d'
   \<longleftrightarrow> d' = (timestamps e (new_User e fn ln em (Some pw) r))\<lparr>doc := stored_user e fn ln em pw r\<rparr>"
  by (auto simp: pre_save_def timestamps_new new_User_simps stored_user_def)

lemma stored_user_simps:
  "u_id (stored_user e fn ln em pw r) = new_ObjectId e"
  "firstName (stored_user e fn ln em pw r) = trim fn"
  "lastName (stored_user e fn ln em pw r) = trim ln"
  "email (stored_user e fn ln em pw r) = trim (toLowerCase em)"
  "password (stored_user e fn ln em pw r) = Some (bcrypt_hash e pw (bcrypt_genSalt e 10))"
  "role (stored_user e fn ln em pw r) = r"
  "avatar (stored_user e fn ln em pw r) = ''https://via.placeholder.com/150''"
  by (simp_all add: stored_user_def new_User_def)

lemma save_new_User:
  "save e st (new_User e fn ln em (Some pw) r) = Inr (d, st') \<longleftrightarrow>
     validate (new_User e fn ln em (Some pw) r) = []
     \<and> new_ObjectId e \<notin> u_id ` set st
     \<and> trim (toLowerCase em) \<notin> email ` set st
     \<and> doc d = stored_user e fn ln em pw r \<and> \<not> isNew d \<and> modifiedPaths d = []
     \<and> st' = st @ [stored_user e fn ln em pw r]"
proof -
  let ?n = "new_User e fn ln em (Some pw) r"
  let ?t = "(timestamps e ?n)\<lparr>doc := stored_user e fn ln em pw r\<rparr>"
  have p: "pre_save e (timestamps e ?n) = Inr ?t"
    by (simp add: pre_save_new_User)
  have n: "isNew ?t"
    by (simp add: timestamps_new new_User_simps)
  show ?thesis
    unfolding save_def
    by (cases "validate ?n") (auto simp: p n stored_user_simps)
qed

lemma save_new_User_null: "save e st (new_User e fn ln em None r) = Inr x \<longleftrightarrow> False"
proof -
  have "validate_password (new_User e fn ln em None r) \<noteq> []"
    by (simp add: validate_password_def new_User_simps)
  then have "validate (new_User e fn ln em None r) \<noteq> []"
    by (simp add: validate_def)
  then show ?thesis
    by (cases "validate (new_User e fn ln em None r)") (simp_all add: save_def)
qed

lemma castString_JStr: "castString e (JStr s) = Inr (Some s)"
  by (simp add: castString_def)

lemma User_create_Inr:
  "User_create e st fn ln em v r = Inr (d, st') \<longleftrightarrow>
     (\<exists>pw. castString e v = Inr (Some pw)
       \<and> validate (new_User e fn ln em (Some pw) r) = []
       \<and> new_ObjectId e \<notin> u_id ` set st
       \<and> trim (toLowerCase em) \<notin> email ` set st
       \<and> doc d = stored_user e fn ln em pw r \<and> \<not> isNew d \<and> modifiedPaths d = []
       \<and> st' = st @ [stored_user e fn ln em pw r])"
proof (cases "castString e v")
  case (Inl u)
  then show ?thesis by (simp add: User_create_def)
next
  case (Inr p)
  show ?thesis
  proof (cases p)
    case None
    with Inr show ?thesis by (simp add: User_create_def save_new_User_null)
  next
    case (Some pw)
    with Inr show ?thesis by (simp add: User_create_def save_new_User)
  qed
qed

lemma register_cases:
  "register e st req = (resp, st') \<Longrightarrow>
     (st' = st \<and> fst resp \<in> {400, 500})
     \<or> (\<exists>fn ln em v pw u. b_firstName (body req) = Some fn \<and> b_lastName (body req) = Some ln
           \<and> b_email (body req) = Some em \<and> b_password (body req) = Some v
           \<and> fn \<noteq> [] \<and> ln \<noteq> [] \<and> em \<noteq> [] \<and> truthy_value (Some v)
           \<and> castString e v = Inr (Some pw)
           \<and> u = stored_user e fn ln em pw (or_default (b_role (body req)) ''student'')
           \<and> validate (new_User e fn ln em (Some pw) (or_default (b_role (body req)) ''student'')) = []
           \<and> new_ObjectId e \<notin> u_id ` set st
           \<and> trim (toLowerCase em) \<notin> email ` set st
           \<and> st' = st @ [u]
           \<and> (case jwt_sign e \<lparr>p_id = u_id u, p_role = role u, p_email = email u\<rparr> (secret e) (expiresIn e) of
                 Inl err \<Rightarrow> resp = (500, failure_with_error ''Error registering user'' err)
               | Inr tok \<Rightarrow> resp = (201, registered u tok)))"
  unfolding register_def Let_def
  apply (cases "b_firstName (body req)"; cases "b_lastName (body req)"; cases "b_email (body req)"; cases "b_password (body req)")
                 apply (simp_all split: if_splits option.splits sum.splits prod.splits)
     apply (auto simp: User_create_Inr getSignedJwtToken_def token_payload_def)
  done

lemma register_success:
  assumes "b_firstName (body req) = Some fn" "fn \<noteq> []"
    and "b_lastName (body req) = Some ln" "ln \<noteq> []"
    and "b_email (body req) = Some em" "em \<noteq> []"
    and "b_password (body req) = Some (JStr pw)" "pw \<noteq> []"
    and "validate (new_User e fn ln em (Some pw) (or_default (b_role (body req)) ''student'')) = []"
    and "new_ObjectId e \<notin> u_id ` set st"
    and "trim (toLowerCase em) \<notin> email ` set st"
    and "jwt_sign e \<lparr>p_id = new_ObjectId e, p_role = or_default (b_role (body req)) ''student'',
            p_email = trim (toLowerCase em)\<rparr> (secret e) (expiresIn e) = Inr tok"
  shows "register e st req =
           ((201, registered (stored_user e fn ln em pw (or_default (b_role (body req)) ''student'')) tok),
            st @ [stored_user e fn ln em pw (or_default (b_role (body req)) ''student'')])"
proof -
  let ?r = "or_default (b_role (body req)) ''student''"
  let ?u = "stored_user e fn ln em pw ?r"
  let ?d = "\<lparr>doc = ?u, isNew = False, modifiedPaths = []\<rparr>"
  have f: "findOne_email False st em = None"
    using assms(11) by (simp add: findOne_email_None)
  have c: "User_create e st fn ln em (JStr pw) ?r = Inr (?d, st @ [?u])"
    using assms by (simp add: User_create_Inr castString_JStr)
  have t: "getSignedJwtToken e ?d = Inr tok"
    using assms(12) by (simp add: getSignedJwtToken_def token_payload_def stored_user_simps)
  show ?thesis
    using assms(1-8) by (simp add: register_def f c t)
qed

lemma registered_no_password: "\<not> has_key ''password'' (registered u tok)"
  by (simp add: registered_def register_view_def)

text \<open>
  Claim C1. \<open>register\<close> takes the role from the body. For every request whose body has
  the four required fields (the password a string) and the role \<open>admin\<close> or
  \<open>instructor\<close>, whose document
  passes the validators of the schema and whose email is not yet in the store, and
  whatever its Authorization header and attached identity are (there may be none), the
  answer is 201, the record appended to the store has the requested role, the user view
  of the response shows it, and the token is the one signed over a payload with that
  role. Nothing in the handler looks at the caller. (A role that is absent or the empty
  string becomes \<open>student\<close>, by \<open>role || 'student'\<close>.)
\<close>

theorem register_grants_requested_role:
  assumes "b_firstName (body req) = Some fn" and "fn \<noteq> []"
    and "b_lastName (body req) = Some ln" and "ln \<noteq> []"
    and "b_email (body req) = Some em" and "em \<noteq> []"
    and "b_password (body req) = Some (JStr pw)" and "pw \<noteq> []"
    and "b_role (body req) = Some r" and "r = ''admin'' \<or> r = ''instructor''"
    and "validate (new_User e fn ln em (Some pw) r) = []"
    and "new_ObjectId e \<notin> u_id ` set st"
    and "trim (toLowerCase em) \<notin> email ` set st"
    and "jwt_sign e \<lparr>p_id = new_ObjectId e, p_role = r, p_email = trim (toLowerCase em)\<rparr>
           (secret e) (expiresIn e) = Inr tok"
  shows "\<exists>u. register e st (req\<lparr>authorization := a, user := w\<rparr>)
               = ((201, registered u tok), st @ [u])
             \<and> role u = r
             \<and> json_field ''role'' (register_view u) = Some (JStr r)
             \<and> getSignedJwtToken e \<lparr>doc = u, isNew = False, modifiedPaths = []\<rparr> = Inr tok
             \<and> p_role (token_payload \<lparr>doc = u, isNew = False, modifiedPaths = []\<rparr>) = r"
proof -
  let ?req = "req\<lparr>authorization := a, user := w\<rparr>"
  have r: "or_default (b_role (body ?req)) ''student'' = r"
    using assms(9,10) by auto
  have "register e st ?req =
      ((201, registered (stored_user e fn ln em pw (or_default (b_role (body ?req)) ''student'')) tok),
       st @ [stored_user e fn ln em pw (or_default (b_role (body ?req)) ''student'')])"
    by (rule register_success[where fn = fn and ln = ln and em = em and pw = pw])
       (use assms r in simp_all)
  then have "register e st ?req
      = ((201, registered (stored_user e fn ln em pw r) tok), st @ [stored_user e fn ln em pw r])"
    by (simp only: r)
  moreover have "getSignedJwtToken e \<lparr>doc = stored_user e fn ln em pw r, isNew = False, modifiedPaths = []\<rparr> = Inr tok"
    using assms(14) by (simp add: getSignedJwtToken_def token_payload_def stored_user_simps)
  ultimately show ?thesis
    by (intro exI[of _ "stored_user e fn ln em pw r"])
       (simp add: stored_user_simps register_view_def token_payload_def)
qed

theorem register_grants_requested_role_witness:
  "\<exists>u. register example_env example_store
          (register_bob\<lparr>authorization := None, user := None\<rparr>)
        = ((201, registered u ''default-secret-key/admin-token''),
           example_store @ [u])
      \<and> role u = ''admin''
      \<and> json_field ''role'' (register_view u) = Some (JStr ''admin'')
      \<and> getSignedJwtToken example_env \<lparr>doc = u, isNew = False, modifiedPaths = []\<rparr>
           = Inr ''default-secret-key/admin-token''
      \<and> p_role (token_payload \<lparr>doc = u, isNew = False, modifiedPaths = []\<rparr>) = ''admin''"
proof (rule register_grants_requested_role
    [where fn = "''Bob''" and ln = "''Ray''" and em = "''Bob@Example.com''" and pw = "''hunter22''"])
  show "b_firstName (body register_bob) = Some ''Bob''" by (simp add: register_bob_def)
  show "b_lastName (body register_bob) = Some ''Ray''" by (simp add: register_bob_def)
  show "b_email (body register_bob) = Some ''Bob@Example.com''" by (simp add: register_bob_def)
  show "b_password (body register_bob) = Some (JStr ''hunter22'')" by (simp add: register_bob_def)
  show "b_role (body register_bob) = Some ''admin''" by (simp add: register_bob_def)
  show "''admin'' = ''admin'' \<or> ''admin'' = ''instructor''" by simp
  show "validate (new_User example_env ''Bob'' ''Ray'' ''Bob@Example.com'' (Some ''hunter22'') ''admin'') = []"
    by code_simp
  show "new_ObjectId example_env \<notin> u_id ` set example_store" by code_simp
  show "trim (toLowerCase ''Bob@Example.com'') \<notin> email ` set example_store" by code_simp
  show "jwt_sign example_env
     \<lparr>p_id = new_ObjectId example_env, p_role = ''admin'',
        p_email = trim (toLowerCase ''Bob@Example.com'')\<rparr>
     (secret example_env) (expiresIn example_env) = Inr ''default-secret-key/admin-token''"
    by code_simp
qed simp_all

text \<open>
  Claim C8. For every registration request whose email has a stored record, that is,
  whose email is the email of a stored record once \<open>String.prototype.toLowerCase\<close> and
  \<open>String.prototype.trim\<close> have been applied to it as the query does, the answer is a
  400 and the store is left as it was; when the other required fields are there too, the
  answer is the 400 \<open>User with this email already exists\<close>.
\<close>

theorem register_duplicate_email:
  assumes "b_email (body req) = Some em"
    and "trim (toLowerCase em) \<in> email ` set st"
  shows "fst (fst (register e st req)) = 400
       \<and> snd (register e st req) = st
       \<and> (truthy (b_firstName (body req)) \<and> truthy (b_lastName (body req)) \<and> em \<noteq> []
            \<and> truthy_value (b_password (body req))
          \<longrightarrow> register e st req = ((400, failure ''User with this email already exists''), st))"
proof -
  from assms(2) have "findOne_email False st em \<noteq> None"
    by (simp add: findOne_email_None)
  then obtain d where "findOne_email False st em = Some d"
    by auto
  then show ?thesis
    using assms(1) by (simp add: register_def Let_def)
qed

theorem register_duplicate_email_witness:
  "register example_env example_store register_ann_again
     = ((400, failure ''User with this email already exists''), example_store)"
proof -
  have 1: "b_email (body register_ann_again) = Some (CHR 0xA0 # ''ANN@example.com'')"
    by (simp add: register_ann_again_def)
  have 2: "trim (toLowerCase (CHR 0xA0 # ''ANN@example.com'')) \<in> email ` set example_store"
    by code_simp
  have 3: "truthy (b_firstName (body register_ann_again))
      \<and> truthy (b_lastName (body register_ann_again)) \<and> CHR 0xA0 # ''ANN@example.com'' \<noteq> []
      \<and> truthy_value (b_password (body register_ann_again))"
    by (simp add: register_ann_again_def no_body_def)
  show ?thesis
    by (rule register_duplicate_email
          [OF 1 2, THEN conjunct2, THEN conjunct2, rule_format, OF 3])
qed

lemma validate_new_User:
  "validate (new_User e fn ln em (Some pw) r) = [] \<longleftrightarrow>
     trim fn \<noteq> [] \<and> length (trim fn) \<le> 50
     \<and> trim ln \<noteq> [] \<and> length (trim ln) \<le> 50
     \<and> trim (toLowerCase em) \<noteq> [] \<and> matches email_pattern (trim (toLowerCase em))
     \<and> 6 \<le> length pw
     \<and> r \<in> set UserRole_values"
  by (auto simp: validate_def validate_firstName_def validate_lastName_def validate_email_def
      validate_password_def validate_role_def validate_bio_def new_User_def)

text \<open>
  The setters on a no-break space: a first name that is nothing else is trimmed to the
  empty string and fails \<open>required\<close>, and an email after one is a valid, trimmed email.
\<close>

lemma setters_no_break_space:
  "trim (CHR 0xA0 # '' Anna '' @ [CHR 0x0A]) = ''Anna''"
  "toLowerCase (CHR 0xC9 # ''Cole'' @ [CHR 0xD7]) = CHR 0xE9 # ''cole'' @ [CHR 0xD7]"
  "validate (new_User example_env [CHR 0xA0] ''Ray'' ''bob@example.com'' (Some ''hunter22'') ''student'')
     = [(''firstName'', ''First name is required'')]"
  "validate (new_User example_env ''Bob'' ''Ray'' (CHR 0xA0 # ''bob@example.com'') (Some ''hunter22'')
       ''student'') = []"
  by code_simp+

lemma register_view_stored_user:
  "new_ObjectId e' = new_ObjectId e \<Longrightarrow>
   register_view (stored_user e' fn ln em pw' r) = register_view (stored_user e fn ln em pw r)"
  by (simp add: register_view_def stored_user_simps)

lemma example_env_roundtrip:
  "\<forall>p t. jwt_sign example_env p (secret example_env) (expiresIn example_env) = Inr t
      \<longrightarrow> jwt_verify example_env t (secret example_env) = Inr p"
  by (simp add: example_env_def example_admin_def example_student_def split: if_splits)

text \<open>
  Claim C9. Take a registration with the four required fields (the password a string),
  whose document passes the validators (after \<open>String.prototype.trim\<close> and
  \<open>toLowerCase\<close>, as the schema's setters apply them), whose email is not the email of
  a stored record, for which \<open>jwt.sign\<close> returns a token, and
  let \<open>jwt.verify\<close> under the same secret give back what \<open>jwt.sign\<close> signed. Then the
  answer is 201, a record is appended to the store, the response carries the token at
  \<open>data.token\<close>, and verifying that token yields a payload whose id is the \<open>_id\<close> of the
  appended record. The response body has no \<open>password\<close> key at any depth, and it does
  not depend on the password or on its hash: the same registration with any other
  acceptable password, any other salt and any other hash function is answered with the
  very same status and body.
\<close>

theorem register_token_identifies_record:
  assumes "b_firstName (body req) = Some fn" and "fn \<noteq> []"
    and "b_lastName (body req) = Some ln" and "ln \<noteq> []"
    and "b_email (body req) = Some em" and "em \<noteq> []"
    and "b_password (body req) = Some (JStr pw)" and "pw \<noteq> []"
    and "validate (new_User e fn ln em (Some pw) (or_default (b_role (body req)) ''student'')) = []"
    and "new_ObjectId e \<notin> u_id ` set st"
    and "trim (toLowerCase em) \<notin> email ` set st"
    and "jwt_sign e \<lparr>p_id = new_ObjectId e, p_role = or_default (b_role (body req)) ''student'',
            p_email = trim (toLowerCase em)\<rparr> (secret e) (expiresIn e) = Inr tok"
    and "\<forall>p t. jwt_sign e p (secret e) (expiresIn e) = Inr t \<longrightarrow> jwt_verify e t (secret e) = Inr p"
  shows "\<exists>u b. register e st req = ((201, b), st @ [u])
           \<and> Option.bind (json_field ''data'' b) (json_field ''token'') = Some (JStr tok)
           \<and> (\<exists>p. verifyToken e tok = Some p \<and> p_id p = u_id u)
           \<and> \<not> has_key ''password'' b
           \<and> (\<forall>pw' H G. 6 \<le> length pw' \<longrightarrow>
                 fst (register (e\<lparr>bcrypt_genSalt := G, bcrypt_hash := H\<rparr>) st
                        (req\<lparr>body := (body req)\<lparr>b_password := Some (JStr pw')\<rparr>\<rparr>)) = (201, b))"
proof -
  let ?r = "or_default (b_role (body req)) ''student''"
  let ?u = "stored_user e fn ln em pw ?r"
  let ?b = "registered ?u tok"
  have reg: "register e st req = ((201, ?b), st @ [?u])"
    using assms(1-12) by (rule register_success)
  have tok: "Option.bind (json_field ''data'' ?b) (json_field ''token'') = Some (JStr tok)"
    by (simp add: registered_def)
  have "jwt_verify e tok (secret e)
      = Inr \<lparr>p_id = new_ObjectId e, p_role = ?r, p_email = trim (toLowerCase em)\<rparr>"
    using assms(12,13) by blast
  then have dec: "\<exists>p. verifyToken e tok = Some p \<and> p_id p = u_id ?u"
    by (simp add: verifyToken_def stored_user_simps)
  have nokey: "\<not> has_key ''password'' ?b"
    by (simp add: registered_def register_view_def)
  have indep: "fst (register (e\<lparr>bcrypt_genSalt := G, bcrypt_hash := H\<rparr>) st
                  (req\<lparr>body := (body req)\<lparr>b_password := Some (JStr pw')\<rparr>\<rparr>)) = (201, ?b)"
    if len: "6 \<le> length pw'" for pw' H G
  proof -
    let ?e = "e\<lparr>bcrypt_genSalt := G, bcrypt_hash := H\<rparr>"
    let ?q = "req\<lparr>body := (body req)\<lparr>b_password := Some (JStr pw')\<rparr>\<rparr>"
    have ne: "pw' \<noteq> []"
      using len by auto
    have v: "validate (new_User ?e fn ln em (Some pw') (or_default (b_role (body ?q)) ''student'')) = []"
      using assms(9) len by (simp add: validate_new_User)
    have s: "jwt_sign ?e \<lparr>p_id = new_ObjectId ?e, p_role = or_default (b_role (body ?q)) ''student'',
            p_email = trim (toLowerCase em)\<rparr> (secret ?e) (expiresIn ?e) = Inr tok"
      using assms(12) by (simp add: secret_def expiresIn_def)
    have "register ?e st ?q =
        ((201, registered (stored_user ?e fn ln em pw' (or_default (b_role (body ?q)) ''student'')) tok),
         st @ [stored_user ?e fn ln em pw' (or_default (b_role (body ?q)) ''student'')])"
      by (rule register_success [OF _ assms(2) _ assms(4) _ assms(6) _ ne v _ _ s])
         (use assms in simp_all)
    moreover have "register_view (stored_user ?e fn ln em pw' ?r) = register_view ?u"
      by (rule register_view_stored_user) simp
    ultimately show ?thesis
      by (simp add: registered_def)
  qed
  from reg tok dec nokey indep show ?thesis
    by blast
qed

theorem register_token_identifies_record_witness:
  "\<exists>u b. register example_env example_store register_bob = ((201, b), example_store @ [u])
     \<and> Option.bind (json_field ''data'' b) (json_field ''token'')
         = Some (JStr ''default-secret-key/admin-token'')
     \<and> (\<exists>p. verifyToken example_env ''default-secret-key/admin-token'' = Some p
            \<and> p_id p = u_id u)
     \<and> \<not> has_key ''password'' b
     \<and> (\<forall>pw' H G. 6 \<le> length pw' \<longrightarrow>
           fst (register (example_env\<lparr>bcrypt_genSalt := G, bcrypt_hash := H\<rparr>) example_store
                  (register_bob\<lparr>body := (body register_bob)\<lparr>b_password := Some (JStr pw')\<rparr>\<rparr>))
             = (201, b))"
proof (rule register_token_identifies_record
    [where fn = "''Bob''" and ln = "''Ray''" and em = "''Bob@Example.com''" and pw = "''hunter22''"])
  show "b_firstName (body register_bob) = Some ''Bob''" by (simp add: register_bob_def)
  show "b_lastName (body register_bob) = Some ''Ray''" by (simp add: register_bob_def)
  show "b_email (body register_bob) = Some ''Bob@Example.com''" by (simp add: register_bob_def)
  show "b_password (body register_bob) = Some (JStr ''hunter22'')" by (simp add: register_bob_def)
  show "validate (new_User example_env ''Bob'' ''Ray'' ''Bob@Example.com'' (Some ''hunter22'')
          (or_default (b_role (body register_bob)) ''student'')) = []"
    by code_simp
  show "new_ObjectId example_env \<notin> u_id ` set example_store" by code_simp
  show "trim (toLowerCase ''Bob@Example.com'') \<notin> email ` set example_store" by code_simp
  show "jwt_sign example_env
     \<lparr>p_id = new_ObjectId example_env,
        p_role = or_default (b_role (body register_bob)) ''student'',
        p_email = trim (toLowerCase ''Bob@Example.com'')\<rparr>
     (secret example_env) (expiresIn example_env) = Inr ''default-secret-key/admin-token''"
    by code_simp
  show "\<forall>p t. jwt_sign example_env p (secret example_env) (expiresIn example_env) = Inr t
      \<longrightarrow> jwt_verify example_env t (secret example_env) = Inr p"
    by (rule example_env_roundtrip)
qed simp_all

section \<open>Properties of login\<close>

text \<open>
  With a password that is a string: a login with an email that no stored record has, and
  a login with the email of a stored record and a password that \<open>bcrypt.compare\<close> rejects
  against its hash, get the same response, status 401 with the body
  \<open>{success: false, message: 'Invalid credentials'}\<close>.
\<close>

lemma login_string_password:
  assumes "b_email (body r1) = Some em1" and "em1 \<noteq> []"
    and "b_password (body r1) = Some (JStr pw1)" and "pw1 \<noteq> []"
    and "trim (toLowerCase em1) \<notin> email ` set st1"
    and "b_email (body r2) = Some em2" and "em2 \<noteq> []"
    and "b_password (body r2) = Some (JStr pw2)" and "pw2 \<noteq> []"
    and "find (\<lambda>u. email u = trim (toLowerCase em2)) st2 = Some known"
    and "password known = Some h" and "\<not> bcrypt_compare e2 pw2 h"
  shows "login e1 st1 r1 = (401, failure ''Invalid credentials'')
       \<and> login e2 st2 r2 = (401, failure ''Invalid credentials'')
       \<and> login e1 st1 r1 = login e2 st2 r2"
proof -
  have "findOne_email True st1 em1 = None"
    using assms(5) by (simp add: findOne_email_None)
  then have 1: "login e1 st1 r1 = (401, failure ''Invalid credentials'')"
    using assms(1-4) by (simp add: login_def)
  have "findOne_email True st2 em2 = Some (hydrate True known)"
    using assms(10) by (simp add: findOne_email_def)
  moreover have "comparePassword e2 (hydrate True known) (JStr pw2) = Inr False"
    using assms(11,12) by (simp add: comparePassword_def hydrate_def)
  ultimately have 2: "login e2 st2 r2 = (401, failure ''Invalid credentials'')"
    using assms(6-9) by (simp add: login_def)
  from 1 2 show ?thesis by simp
qed

text \<open>
  Claim C2 holds of string passwords only, and fails on the code otherwise. Take two
  logins with the same truthy password that is not a string (a number, \<open>true\<close>, an array,
  an object), one with an email that no stored record has and one with the email of a
  stored record. The first gets the 401 \<open>Invalid credentials\<close>. For the second,
  \<open>bcrypt.compare\<close> rejects its arguments and the \<open>catch\<close> clause answers 500 with the
  message of that error, so the two responses differ and tell whether the email exists.
\<close>

theorem login_other_password_reveals_email:
  assumes "b_password (body r1) = Some v" and "b_password (body r2) = Some v"
    and "truthy_value (Some v)" and "typeof v \<noteq> ''string''"
    and "b_email (body r1) = Some em1" and "em1 \<noteq> []"
    and "trim (toLowerCase em1) \<notin> email ` set st"
    and "b_email (body r2) = Some em2" and "em2 \<noteq> []"
    and "find (\<lambda>u. email u = trim (toLowerCase em2)) st = Some known"
  shows "login e st r1 = (401, failure ''Invalid credentials'')
       \<and> login e st r2
           = (500, failure_with_error ''Error logging in'' (illegal_arguments v (password known)))
       \<and> login e st r1 \<noteq> login e st r2"
proof -
  have "findOne_email True st em1 = None"
    using assms(7) by (simp add: findOne_email_None)
  then have 1: "login e st r1 = (401, failure ''Invalid credentials'')"
    using assms(1,3,5,6) by (simp add: login_def)
  have f: "findOne_email True st em2 = Some (hydrate True known)"
    using assms(10) by (simp add: findOne_email_def)
  have "comparePassword e (hydrate True known) v = Inl (illegal_arguments v (password known))"
    using assms(4) by (cases v) (simp_all add: comparePassword_def hydrate_def)
  then have 2: "login e st r2
      = (500, failure_with_error ''Error logging in'' (illegal_arguments v (password known)))"
    using assms(2,3,8,9) f by (simp add: login_def)
  from 1 2 show ?thesis by simp
qed

theorem login_other_password_reveals_email_witness:
  "login example_env example_store login_unknown_number
     = (401, failure ''Invalid credentials'')
   \<and> login example_env example_store login_known_number
     = (500, failure_with_error ''Error logging in''
               (illegal_arguments (JNum 123456) (password ann)))
   \<and> login example_env example_store login_unknown_number
     \<noteq> login example_env example_store login_known_number"
proof (rule login_other_password_reveals_email
    [where ?em1.0 = "''eve@example.com''" and ?em2.0 = "''ann@example.com''"])
  show "b_password (body login_unknown_number) = Some (JNum 123456)"
    by (simp add: login_unknown_number_def)
  show "b_password (body login_known_number) = Some (JNum 123456)"
    by (simp add: login_known_number_def)
  show "b_email (body login_unknown_number) = Some ''eve@example.com''"
    by (simp add: login_unknown_number_def)
  show "b_email (body login_known_number) = Some ''ann@example.com''"
    by (simp add: login_known_number_def)
  show "trim (toLowerCase ''eve@example.com'') \<notin> email ` set example_store"
    by code_simp
  show "find (\<lambda>u. email u = trim (toLowerCase ''ann@example.com'')) example_store = Some ann"
    by code_simp
qed simp_all

text \<open>The error of the 500 response at that input.\<close>

lemma illegal_arguments_number:
  "illegal_arguments (JNum 123456) (password ann)
     = LibraryError ''Illegal arguments: number, string''"
  by code_simp

section \<open>Properties of the profile update\<close>

lemma markModified_simps:
  "doc (markModified p d) = doc d"
  "isNew (markModified p d) = isNew d"
  "isModified (markModified p d) q \<longleftrightarrow> q = p \<or> isModified d q"
  "modifiedPaths (markModified p d) \<noteq> []"
  by (auto simp: markModified_def isModified_def)

lemma isModified_doc_update [simp]: "isModified (d\<lparr>doc := x\<rparr>) q = isModified d q"
  by (simp add: isModified_def)

lemma set_firstName_simps:
  "doc (set_firstName v d) = (doc d)\<lparr>firstName := trim v\<rparr>"
  "isNew (set_firstName v d) = isNew d"
  "isModified (set_firstName v d) q \<longleftrightarrow>
     (q = ''firstName'' \<and> firstName (doc d) \<noteq> trim v) \<or> isModified d q"
  by (auto simp: set_firstName_def Let_def markModified_simps)

lemma set_lastName_simps:
  "doc (set_lastName v d) = (doc d)\<lparr>lastName := trim v\<rparr>"
  "isNew (set_lastName v d) = isNew d"
  "isModified (set_lastName v d) q \<longleftrightarrow>
     (q = ''lastName'' \<and> lastName (doc d) \<noteq> trim v) \<or> isModified d q"
  by (auto simp: set_lastName_def Let_def markModified_simps)

lemma set_bio_simps:
  "doc (set_bio v d) = (doc d)\<lparr>bio := Some v\<rparr>"
  "isNew (set_bio v d) = isNew d"
  "isModified (set_bio v d) q \<longleftrightarrow>
     (q = ''bio'' \<and> bio (doc d) \<noteq> Some v) \<or> isModified d q"
  by (auto simp: set_bio_def markModified_simps)

lemma set_avatar_simps:
  "doc (set_avatar v d) = (doc d)\<lparr>avatar := v\<rparr>"
  "isNew (set_avatar v d) = isNew d"
  "isModified (set_avatar v d) q \<longleftrightarrow>
     (q = ''avatar'' \<and> avatar (doc d) \<noteq> v) \<or> isModified d q"
  by (auto simp: set_avatar_def markModified_simps)

lemma isModified_Nil: "modifiedPaths d = [] \<longleftrightarrow> (\<forall>q. \<not> isModified d q)"
  by (auto simp: isModified_def)

lemma apply_profile_doc:
  "doc (apply_profile b d) = profile_fields b (doc d)"
  by (cases "b_bio b")
     (simp_all add: apply_profile_def profile_fields_def Let_def
        set_firstName_simps set_lastName_simps set_bio_simps set_avatar_simps)

lemma apply_profile_isNew: "isNew (apply_profile b d) = isNew d"
  by (cases "b_bio b")
     (simp_all add: apply_profile_def Let_def
        set_firstName_simps set_lastName_simps set_bio_simps set_avatar_simps)


lemma setters_unmodified:
  "modifiedPaths (set_firstName v d) = [] \<longleftrightarrow> modifiedPaths d = [] \<and> firstName (doc d) = trim v"
  "modifiedPaths (set_lastName v d) = [] \<longleftrightarrow> modifiedPaths d = [] \<and> lastName (doc d) = trim v"
  "modifiedPaths (set_bio w d) = [] \<longleftrightarrow> modifiedPaths d = [] \<and> bio (doc d) = Some w"
  "modifiedPaths (set_avatar v d) = [] \<longleftrightarrow> modifiedPaths d = [] \<and> avatar (doc d) = v"
  by (simp_all add: set_firstName_def set_lastName_def set_bio_def set_avatar_def Let_def
      markModified_simps)

lemma hydrate_simps:
  "doc (hydrate False u) = u\<lparr>password := None\<rparr>"
  "isNew (hydrate sp u) = False"
  "isModified (hydrate sp u) q = False"
  "modifiedPaths (hydrate sp u) = []"
  by (simp_all add: hydrate_def isModified_def)

lemma profile_fields_password:
  "profile_fields b (u\<lparr>password := x\<rparr>) = (profile_fields b u)\<lparr>password := x\<rparr>"
  by (cases u) (simp add: profile_fields_def split: option.splits)

lemma profile_fields_frame:
  "u_id (profile_fields b u) = u_id u"
  "email (profile_fields b u) = email u"
  "password (profile_fields b u) = password u"
  "role (profile_fields b u) = role u"
  "enrolledCourses (profile_fields b u) = enrolledCourses u"
  "createdCourses (profile_fields b u) = createdCourses u"
  "isVerified (profile_fields b u) = isVerified u"
  "resetPasswordToken (profile_fields b u) = resetPasswordToken u"
  "resetPasswordExpire (profile_fields b u) = resetPasswordExpire u"
  "createdAt (profile_fields b u) = createdAt u"
  "updatedAt (profile_fields b u) = updatedAt u"
  by (simp_all add: profile_fields_def)

lemma profile_fields_eq_iff:
  "profile_fields b u = u \<longleftrightarrow>
     firstName (profile_fields b u) = firstName u \<and> lastName (profile_fields b u) = lastName u
     \<and> bio (profile_fields b u) = bio u \<and> avatar (profile_fields b u) = avatar u"
  by (cases u) (auto simp: profile_fields_def)

lemma apply_profile_unmodified:
  "modifiedPaths (apply_profile b d) = [] \<longleftrightarrow>
     modifiedPaths d = [] \<and> profile_fields b (doc d) = doc d"
  unfolding profile_fields_eq_iff [of b "doc d"]
  by (cases "b_bio b")
     (auto simp: apply_profile_def profile_fields_def Let_def setters_unmodified
        set_firstName_simps set_lastName_simps set_bio_simps set_avatar_simps)

text \<open>The loaded document after the assignments of updateProfile.\<close>

lemma loaded_profile:
  fixes b rec
  defines "d \<equiv> apply_profile b (hydrate False rec)"
  shows "doc d = (profile_fields b rec)\<lparr>password := None\<rparr>"
    and "\<not> isNew d"
    and "\<not> isModified d ''password''"
    and "\<not> isModified d ''email''"
    and "\<not> isModified d ''role''"
    and "\<not> isModified d ''createdAt''"
    and "\<not> isModified d ''updatedAt''"
    and "isModified d ''firstName'' \<longleftrightarrow> firstName (profile_fields b rec) \<noteq> firstName rec"
    and "isModified d ''lastName'' \<longleftrightarrow> lastName (profile_fields b rec) \<noteq> lastName rec"
    and "isModified d ''bio'' \<longleftrightarrow> bio (profile_fields b rec) \<noteq> bio rec"
    and "isModified d ''avatar'' \<longleftrightarrow> avatar (profile_fields b rec) \<noteq> avatar rec"
    and "modifiedPaths d = [] \<longleftrightarrow> profile_fields b rec = rec"
proof -
  note defs = d_def apply_profile_def profile_fields_def Let_def hydrate_simps
    set_firstName_simps set_lastName_simps set_bio_simps set_avatar_simps
  show "doc d = (profile_fields b rec)\<lparr>password := None\<rparr>"
    by (simp add: d_def apply_profile_doc hydrate_simps profile_fields_password)
  show "\<not> isNew d"
    by (simp add: d_def apply_profile_isNew hydrate_simps)
  show "\<not> isModified d ''password''"
    by (cases "b_bio b") (simp_all add: defs)
  show "\<not> isModified d ''email''"
    by (cases "b_bio b") (simp_all add: defs)
  show "\<not> isModified d ''role''"
    by (cases "b_bio b") (simp_all add: defs)
  show "\<not> isModified d ''createdAt''"
    by (cases "b_bio b") (simp_all add: defs)
  show "\<not> isModified d ''updatedAt''"
    by (cases "b_bio b") (simp_all add: defs)
  show "isModified d ''firstName'' \<longleftrightarrow> firstName (profile_fields b rec) \<noteq> firstName rec"
    by (cases "b_bio b") (auto simp: defs)
  show "isModified d ''lastName'' \<longleftrightarrow> lastName (profile_fields b rec) \<noteq> lastName rec"
    by (cases "b_bio b") (auto simp: defs)
  show "isModified d ''bio'' \<longleftrightarrow> bio (profile_fields b rec) \<noteq> bio rec"
    by (cases "b_bio b") (auto simp: defs)
  show "isModified d ''avatar'' \<longleftrightarrow> avatar (profile_fields b rec) \<noteq> avatar rec"
    by (cases "b_bio b") (auto simp: defs)
  have "profile_fields b (rec\<lparr>password := None\<rparr>) = rec\<lparr>password := None\<rparr>
      \<longleftrightarrow> profile_fields b rec = rec"
    unfolding profile_fields_eq_iff by (simp add: profile_fields_def split: option.splits)
  then show "modifiedPaths d = [] \<longleftrightarrow> profile_fields b rec = rec"
    by (simp add: d_def apply_profile_unmodified hydrate_simps)
qed

lemma timestamps_loaded:
  assumes "\<not> isNew d" and "modifiedPaths d \<noteq> []"
  shows "doc (timestamps e d) = (doc d)\<lparr>updatedAt := Some (now e)\<rparr>"
    and "\<not> isNew (timestamps e d)"
    and "isModified (timestamps e d) q \<longleftrightarrow> q = ''updatedAt'' \<or> isModified d q"
    and "modifiedPaths (timestamps e d) \<noteq> []"
  using assms by (simp_all add: timestamps_def markModified_simps)

lemma timestamps_unmodified:
  "\<not> isNew d \<Longrightarrow> modifiedPaths d = [] \<Longrightarrow> timestamps e d = d"
  by (simp add: timestamps_def)

lemma save_loaded:
  assumes "\<not> isNew d" and "\<not> isModified d ''password''" and "validate d = []"
  shows "save e st d =
     (if modifiedPaths d = [] then Inr (d, st)
      else if u_id (doc d) \<notin> set (map u_id st)
      then Inl (DocumentNotFoundError ''No document found for query'')
      else Inr ((timestamps e d)\<lparr>modifiedPaths := []\<rparr>,
                map (\<lambda>u. if u_id u = u_id (doc d) then write_modified (timestamps e d) u else u) st))"
proof (cases "modifiedPaths d = []")
  case True
  then have t: "timestamps e d = d"
    using assms(1) by (simp add: timestamps_unmodified)
  have "pre_save e d = Inr d"
    using assms(2) by (simp add: pre_save_def)
  then show ?thesis
    using True assms(1,3) by (simp add: save_def t)
next
  case False
  note ts = timestamps_loaded [OF assms(1) False, of e]
  have "\<not> isModified (timestamps e d) ''password''"
    using assms(2) by (simp add: ts)
  then have "pre_save e (timestamps e d) = Inr (timestamps e d)"
    by (simp add: pre_save_def)
  then show ?thesis
    using False assms(3) ts(2,4) by (simp add: save_def ts(1))
qed

lemma write_loaded_profile:
  assumes "profile_fields b rec \<noteq> rec"
  shows "write_modified (timestamps e (apply_profile b (hydrate False rec))) rec
       = (profile_fields b rec)\<lparr>updatedAt := Some (now e)\<rparr>"
proof -
  let ?d = "apply_profile b (hydrate False rec)"
  note lp = loaded_profile [of b rec]
  have m: "modifiedPaths ?d \<noteq> []"
    using assms by (simp add: lp(12))
  note ts = timestamps_loaded [OF lp(2) m, of e]
  show ?thesis
    by (rule IUser.equality)
       (auto simp: write_modified_def ts(1,3) lp profile_fields_frame)
qed

lemma find_Some_id:
  "find (\<lambda>u. u_id u = k) st = Some rec \<Longrightarrow> rec \<in> set st \<and> u_id rec = k"
  by (auto simp: find_Some_iff)

lemma distinct_ids_same:
  "distinct (map u_id st) \<Longrightarrow> rec \<in> set st \<Longrightarrow> u \<in> set st \<Longrightarrow> u_id u = u_id rec \<Longrightarrow> u = rec"
  by (meson distinct_map inj_on_def)

lemma updateProfile_found:
  assumes ident: "user req = Some ident"
    and valid: "ObjectId_isValid e (p_id ident)"
    and found: "find (\<lambda>u. u_id u = p_id ident) st = Some rec"
    and ids: "distinct (map u_id st)"
    and ok: "validate (apply_profile (body req) (hydrate False rec)) = []"
  shows "fst (fst (updateProfile e st req)) = 200"
    and "snd (updateProfile e st req) =
           map (\<lambda>u. if u_id u = p_id ident then updated_profile e (body req) rec else u) st"
proof -
  let ?b = "body req"
  let ?d = "apply_profile ?b (hydrate False rec)"
  note lp = loaded_profile [of ?b rec]
  have rec: "rec \<in> set st" "u_id rec = p_id ident"
    using found by (auto dest: find_Some_id)
  have same: "u = rec" if "u \<in> set st" "u_id u = p_id ident" for u
    using distinct_ids_same [OF ids rec(1) that(1)] that(2) rec(2) by simp
  have f: "findById e st (map_option p_id (user req)) = Inr (Some (hydrate False rec))"
    using ident valid found by (simp add: findById_def)
  have id: "u_id (doc ?d) = p_id ident"
    by (simp add: lp(1) profile_fields_frame rec(2))
  have sv: "save e st ?d =
     (if modifiedPaths ?d = [] then Inr (?d, st)
      else if u_id (doc ?d) \<notin> set (map u_id st)
      then Inl (DocumentNotFoundError ''No document found for query'')
      else Inr ((timestamps e ?d)\<lparr>modifiedPaths := []\<rparr>,
                map (\<lambda>u. if u_id u = u_id (doc ?d) then write_modified (timestamps e ?d) u else u) st))"
    by (rule save_loaded [OF lp(2) lp(3) ok])
  have mem: "p_id ident \<in> u_id ` set st"
    using rec by force
  show "fst (fst (updateProfile e st req)) = 200"
    by (simp add: updateProfile_def f sv id mem)
  show "snd (updateProfile e st req) =
           map (\<lambda>u. if u_id u = p_id ident then updated_profile e ?b rec else u) st"
  proof (cases "profile_fields ?b rec = rec")
    case True
    then have "modifiedPaths ?d = []"
      by (simp add: lp(12))
    then have "snd (updateProfile e st req) = st"
      by (simp add: updateProfile_def f sv)
    moreover have "map (\<lambda>u. if u_id u = p_id ident then updated_profile e ?b rec else u) st = st"
      using same True by (intro map_idI) (auto simp: updated_profile_def)
    ultimately show ?thesis by simp
  next
    case False
    then have "modifiedPaths ?d \<noteq> []"
      by (simp add: lp(12))
    then have "snd (updateProfile e st req) =
        map (\<lambda>u. if u_id u = p_id ident then write_modified (timestamps e ?d) u else u) st"
      by (simp add: updateProfile_def f sv mem id)
    also have "\<dots> = map (\<lambda>u. if u_id u = p_id ident then updated_profile e ?b rec else u) st"
      using same False
      by (intro map_cong refl) (auto simp: updated_profile_def write_loaded_profile)
    finally show ?thesis .
  qed
qed

lemma updateProfile_invalid:
  assumes ident: "user req = Some ident"
    and valid: "ObjectId_isValid e (p_id ident)"
    and found: "find (\<lambda>u. u_id u = p_id ident) st = Some rec"
    and bad: "validate (apply_profile (body req) (hydrate False rec)) \<noteq> []"
  shows "fst (fst (updateProfile e st req)) = 500" and "snd (updateProfile e st req) = st"
proof -
  have f: "findById e st (map_option p_id (user req)) = Inr (Some (hydrate False rec))"
    using ident valid found by (simp add: findById_def)
  obtain x xs where "validate (apply_profile (body req) (hydrate False rec)) = x # xs"
    using bad by (cases "validate (apply_profile (body req) (hydrate False rec))") auto
  then have "save e st (apply_profile (body req) (hydrate False rec)) = Inl (ValidationError (x # xs))"
    by (simp add: save_def)
  then show "fst (fst (updateProfile e st req)) = 500" and "snd (updateProfile e st req) = st"
    by (simp_all add: updateProfile_def f)
qed

lemma updated_profile_fields:
  "firstName (updated_profile e b u) = firstName (profile_fields b u)"
  "lastName (updated_profile e b u) = lastName (profile_fields b u)"
  "bio (updated_profile e b u) = bio (profile_fields b u)"
  "avatar (updated_profile e b u) = avatar (profile_fields b u)"
  "updatedAt (updated_profile e b u)
     = (if profile_fields b u = u then updatedAt u else Some (now e))"
  "u_id (updated_profile e b u) = u_id u"
  "email (updated_profile e b u) = email u"
  "password (updated_profile e b u) = password u"
  "role (updated_profile e b u) = role u"
  "enrolledCourses (updated_profile e b u) = enrolledCourses u"
  "createdCourses (updated_profile e b u) = createdCourses u"
  "isVerified (updated_profile e b u) = isVerified u"
  "resetPasswordToken (updated_profile e b u) = resetPasswordToken u"
  "resetPasswordExpire (updated_profile e b u) = resetPasswordExpire u"
  "createdAt (updated_profile e b u) = createdAt u"
  by (cases "profile_fields b u = u"; simp add: updated_profile_def profile_fields_frame)+

text \<open>
  Claim C7, as the code has it. Let the request carry the identity of a stored user (its
  id an ObjectId, the ids of the store being distinct). When the document with the new
  values passes the
  validators, the answer is 200 and the record of that user becomes
  \<open>updated_profile\<close> of it, every other record staying as it was: \<open>firstName\<close>,
  \<open>lastName\<close> and \<open>avatar\<close> take the value of the input when that value is truthy (present
  and not the empty string; the names are stored as \<open>String.prototype.trim\<close> leaves
  them) and keep the stored value
  otherwise; \<open>bio\<close> takes the value of the input whenever it is present, the empty
  string included; \<open>_id\<close>, \<open>email\<close>, \<open>password\<close>, \<open>role\<close>, the course lists, the
  verification flag, the reset fields and \<open>createdAt\<close> keep their values, and
  \<open>updatedAt\<close> moves to the time of the save when one of the four fields changed. When a
  validator fails, the answer is 500 and the store is left as it was.
\<close>

theorem updateProfile_applies_profile_fields:
  assumes "user req = Some ident"
    and "ObjectId_isValid e (p_id ident)"
    and "find (\<lambda>u. u_id u = p_id ident) st = Some rec"
    and "distinct (map u_id st)"
  shows "(validate (apply_profile (body req) (hydrate False rec)) = [] \<longrightarrow>
            fst (fst (updateProfile e st req)) = 200
            \<and> snd (updateProfile e st req)
                = map (\<lambda>u. if u_id u = p_id ident then updated_profile e (body req) rec else u) st)
       \<and> (validate (apply_profile (body req) (hydrate False rec)) \<noteq> [] \<longrightarrow>
            fst (fst (updateProfile e st req)) = 500 \<and> snd (updateProfile e st req) = st)
       \<and> firstName (updated_profile e (body req) rec)
           = (if truthy (b_firstName (body req)) then trim (value_of (b_firstName (body req)))
              else firstName rec)
       \<and> lastName (updated_profile e (body req) rec)
           = (if truthy (b_lastName (body req)) then trim (value_of (b_lastName (body req)))
              else lastName rec)
       \<and> bio (updated_profile e (body req) rec)
           = (case b_bio (body req) of None \<Rightarrow> bio rec | Some v \<Rightarrow> Some v)
       \<and> avatar (updated_profile e (body req) rec)
           = (if truthy (b_avatar (body req)) then value_of (b_avatar (body req)) else avatar rec)
       \<and> updatedAt (updated_profile e (body req) rec)
           = (if profile_fields (body req) rec = rec then updatedAt rec else Some (now e))
       \<and> u_id (updated_profile e (body req) rec) = u_id rec
       \<and> email (updated_profile e (body req) rec) = email rec
       \<and> password (updated_profile e (body req) rec) = password rec
       \<and> role (updated_profile e (body req) rec) = role rec
       \<and> enrolledCourses (updated_profile e (body req) rec) = enrolledCourses rec
       \<and> createdCourses (updated_profile e (body req) rec) = createdCourses rec
       \<and> isVerified (updated_profile e (body req) rec) = isVerified rec
       \<and> resetPasswordToken (updated_profile e (body req) rec) = resetPasswordToken rec
       \<and> resetPasswordExpire (updated_profile e (body req) rec) = resetPasswordExpire rec
       \<and> createdAt (updated_profile e (body req) rec) = createdAt rec"
proof (intro conjI impI)
  assume v: "validate (apply_profile (body req) (hydrate False rec)) = []"
  show "fst (fst (updateProfile e st req)) = 200"
    using assms v by (rule updateProfile_found(1))
  show "snd (updateProfile e st req)
      = map (\<lambda>u. if u_id u = p_id ident then updated_profile e (body req) rec else u) st"
    using assms v by (rule updateProfile_found(2))
next
  assume v: "validate (apply_profile (body req) (hydrate False rec)) \<noteq> []"
  show "fst (fst (updateProfile e st req)) = 500"
    using assms(1,2,3) v by (rule updateProfile_invalid(1))
  show "snd (updateProfile e st req) = st"
    using assms(1,2,3) v by (rule updateProfile_invalid(2))
qed (simp_all add: updated_profile_fields, simp_all add: profile_fields_def)

theorem updateProfile_applies_profile_fields_witness:
  "snd (updateProfile example_env example_store (as_ann new_profile))
     = [ann\<lparr>firstName := ''Anna'', bio := Some [], updatedAt := Some ''2024-01-02''\<rparr>]
   \<and> fst (fst (updateProfile example_env example_store (as_ann new_profile))) = 200
   \<and> fst (fst (updateProfile example_env example_store (as_ann long_bio))) = 500
   \<and> snd (updateProfile example_env example_store (as_ann long_bio)) = example_store"
proof -
  have u: "user (as_ann new_profile) = Some example_student"
    "user (as_ann long_bio) = Some example_student"
    by (simp_all add: as_ann_def)
  have f: "find (\<lambda>u. u_id u = p_id example_student) example_store = Some ann"
    by code_simp
  have d: "distinct (map u_id example_store)"
    by code_simp
  have v: "validate (apply_profile (body (as_ann new_profile)) (hydrate False ann)) = []"
    by code_simp
  have w: "validate (apply_profile (body (as_ann long_bio)) (hydrate False ann)) \<noteq> []"
    by code_simp
  have i: "ObjectId_isValid example_env (p_id example_student)"
    by code_simp
  note ok = updateProfile_applies_profile_fields
    [OF u(1) i f d, THEN conjunct1, rule_format, OF v]
  note bad = updateProfile_applies_profile_fields
    [OF u(2) i f d, THEN conjunct2, THEN conjunct1, rule_format, OF w]
  have m: "map (\<lambda>u. if u_id u = p_id example_student
                     then updated_profile example_env (body (as_ann new_profile)) ann else u)
             example_store
         = [ann\<lparr>firstName := ''Anna'', bio := Some [], updatedAt := Some ''2024-01-02''\<rparr>]"
    by code_simp
  from ok bad m show ?thesis by simp
qed

text \<open>
  Claim C7, as the specification words it, fails: the request below has an \<open>avatar\<close>
  field, with the empty string as its value, on an existing user. The handler answers
  200 and the stored avatar is the one from before, where applying every field that is
  present would have stored the empty string.
\<close>

theorem updateProfile_ignores_empty_avatar:
  "b_avatar (body (as_ann clear_avatar)) = Some []
   \<and> findById example_env example_store (map_option p_id (user (as_ann clear_avatar)))
       = Inr (Some (hydrate False ann))
   \<and> fst (fst (updateProfile example_env example_store (as_ann clear_avatar))) = 200
   \<and> map avatar (snd (updateProfile example_env example_store (as_ann clear_avatar)))
       = [''https://via.placeholder.com/150'']
   \<and> map avatar (map (profile_if_present (body (as_ann clear_avatar))) example_store) = [[]]
   \<and> snd (updateProfile example_env example_store (as_ann clear_avatar))
       \<noteq> map (profile_if_present (body (as_ann clear_avatar))) example_store"
  by code_simp

section \<open>Properties of the pre-save hook\<close>

lemma timestamps_password:
  "password (doc (timestamps e d)) = password (doc d)"
  "isModified (timestamps e d) ''password'' = isModified d ''password''"
  "isNew (timestamps e d) = isNew d"
  by (simp_all add: timestamps_def markModified_simps)

lemma write_modified_keeps:
  "u_id (write_modified d u) = u_id u"
  "\<not> isModified d ''password'' \<Longrightarrow> password (write_modified d u) = password u"
  by (simp_all add: write_modified_def)

lemma save_password:
  assumes "save e s d = Inr (d', s')"
  shows "password (doc d') =
     (if isModified d ''password''
      then map_option (\<lambda>p. bcrypt_hash e p (bcrypt_genSalt e 10)) (password (doc d))
      else password (doc d))"
proof -
  from assms obtain d1 where p: "pre_save e (timestamps e d) = Inr d1"
    and d': "doc d' = doc d1"
    by (auto simp: save_def split: list.splits sum.splits if_splits)
  from p have "password (doc d1) =
     (if isModified d ''password''
      then map_option (\<lambda>p. bcrypt_hash e p (bcrypt_genSalt e 10)) (password (doc d))
      else password (doc d))"
    by (auto simp: pre_save_def timestamps_password split: if_splits option.splits)
  with d' show ?thesis by simp
qed

lemma save_keeps_passwords:
  assumes "\<not> isNew d" and "\<not> isModified d ''password''" and "save e st d = Inr (d', st')"
  shows "map password st' = map password st \<and> map u_id st' = map u_id st"
proof -
  have m: "\<not> isModified (timestamps e d) ''password''"
    using assms(2) by (simp add: timestamps_password)
  have v: "validate d = []"
    using assms(3) by (cases "validate d") (simp_all add: save_def)
  from assms(3) have "st' = st \<or>
      st' = map (\<lambda>u. if u_id u = u_id (doc d) then write_modified (timestamps e d) u else u) st"
    unfolding save_loaded [OF assms(1,2) v] by (auto split: if_splits)
  then show ?thesis
    by (auto simp: write_modified_keeps m)
qed

lemma updateProfile_keeps_passwords:
  "map password (snd (updateProfile e st req)) = map password st
   \<and> map u_id (snd (updateProfile e st req)) = map u_id st"
proof (cases "findById e st (map_option p_id (user req))")
  case (Inl err)
  then show ?thesis by (simp add: updateProfile_def)
next
  case (Inr found)
  show ?thesis
  proof (cases found)
    case None
    with Inr show ?thesis by (simp add: updateProfile_def)
  next
    case (Some d0)
    with Inr obtain rec where d0: "d0 = hydrate False rec"
      by (auto simp: findById_def split: option.splits if_splits)
    let ?d = "apply_profile (body req) (hydrate False rec)"
    note lp = loaded_profile [of "body req" rec]
    show ?thesis
    proof (cases "save e st ?d")
      case (Inl err)
      then show ?thesis by (simp add: updateProfile_def Inr Some d0)
    next
      case r: (Inr r)
      then obtain d' st' where r': "save e st ?d = Inr (d', st')"
        by (cases r) auto
      from save_keeps_passwords [OF lp(2) lp(3) r'] r' show ?thesis
        by (simp add: updateProfile_def Inr Some d0)
    qed
  qed
qed

lemma hashed_once_cong:
  assumes "map u_id st' = map u_id st" and "map password st' = map password st"
  shows "hashed_once e creds st' = hashed_once e creds st"
proof -
  have len: "length st' = length st"
    using assms(1) by (rule map_eq_imp_length_eq)
  have "u_id (st' ! i) = u_id (st ! i) \<and> password (st' ! i) = password (st ! i)"
    if "i < length st" for i
    using assms that len by (metis nth_map)
  then show ?thesis
    by (auto simp: hashed_once_def list_all_length len)
qed

lemma hashed_once_append:
  assumes "hashed_once e creds st" and "u_id u \<notin> u_id ` set st"
    and "password u = Some (bcrypt_hash e pw salt)"
  shows "hashed_once e (creds(u_id u := (pw, salt))) (st @ [u])"
proof -
  have "creds (u_id v) = (creds(u_id u := (pw, salt))) (u_id v)" if "v \<in> set st" for v
  proof -
    have "u_id v \<in> u_id ` set st"
      using that by (rule imageI)
    with assms(2) have "u_id v \<noteq> u_id u"
      by metis
    then show ?thesis by simp
  qed
  then show ?thesis
    using assms(1,3) by (simp add: hashed_once_def list_all_iff)
qed

lemma register_store:
  assumes "register e st req = (resp, st')"
  shows "st' = st
     \<or> (\<exists>v pw u. b_password (body req) = Some v \<and> castString e v = Inr (Some pw) \<and> pw \<noteq> []
           \<and> st' = st @ [u] \<and> u_id u \<notin> u_id ` set st
           \<and> password u = Some (bcrypt_hash e pw (bcrypt_genSalt e 10)))"
  using register_cases [OF assms]
proof (elim disjE exE conjE)
  assume "st' = st"
  then show ?thesis by simp
next
  fix fn ln em v pw u
  assume v: "b_password (body req) = Some v" "castString e v = Inr (Some pw)"
    and u: "u = stored_user e fn ln em pw (or_default (b_role (body req)) ''student'')"
    and val: "validate (new_User e fn ln em (Some pw) (or_default (b_role (body req)) ''student'')) = []"
    and fresh: "new_ObjectId e \<notin> u_id ` set st"
    and st': "st' = st @ [u]"
  from val have "6 \<le> length pw"
    by (simp add: validate_new_User)
  then have "pw \<noteq> []"
    by auto
  moreover have "u_id u \<notin> u_id ` set st"
    using fresh u by (simp add: stored_user_simps)
  moreover have "password u = Some (bcrypt_hash e pw (bcrypt_genSalt e 10))"
    using u by (simp add: stored_user_simps)
  ultimately show ?thesis
    using v st' by blast
qed

lemma step_store:
  assumes "step e st op = (resp, st')"
  shows "map u_id st' = map u_id st \<and> map password st' = map password st
      \<or> (\<exists>req v pw u. op = Register req \<and> b_password (body req) = Some v
                \<and> castString e v = Inr (Some pw) \<and> pw \<noteq> []
                \<and> st' = st @ [u] \<and> u_id u \<notin> u_id ` set st
                \<and> password u = Some (bcrypt_hash e pw (bcrypt_genSalt e 10)))"
proof (cases op)
  case (Register req)
  with assms have "register e st req = (resp, st')" by simp
  from register_store [OF this] show ?thesis
  proof
    assume "st' = st"
    then show ?thesis by simp
  next
    assume "\<exists>v pw u. b_password (body req) = Some v \<and> castString e v = Inr (Some pw) \<and> pw \<noteq> []
           \<and> st' = st @ [u] \<and> u_id u \<notin> u_id ` set st
           \<and> password u = Some (bcrypt_hash e pw (bcrypt_genSalt e 10))"
    with Register show ?thesis by blast
  qed
next
  case (Login req)
  with assms show ?thesis by simp
next
  case (GetMe req)
  with assms show ?thesis by simp
next
  case (UpdateProfile req)
  with assms have "st' = snd (updateProfile e st req)" by simp
  then show ?thesis
    using updateProfile_keeps_passwords [of e st req] by simp
next
  case (Logout req)
  with assms show ?thesis by simp
qed

text \<open>
  Claim C10. On every save that succeeds, the password of the document is the hash of
  what it was if the path was modified, and is what it was otherwise; a new document made
  by \<open>User.create\<close> has the path modified. For every operation of the controller: the
  passwords of the records that were in the store are the same after the operation as
  before (a profile update loads the record, saves it with the password unmodified, and
  the hash is not hashed again); the only new record is the one a registration appends,
  and its password is the hash, under the salt drawn, of the password of the request as
  the schema casts it to a string (a string password is its own cast).
  Hence, if every stored password is the hash of one plaintext under one salt, the same
  holds after the operation, with the same plaintext and salt for the records that were
  there.
\<close>

theorem stored_password_hashed_once:
  assumes "step e st op = (resp, st')"
  shows "map password (take (length st) st') = map password st
       \<and> (length st' = length st
          \<or> (\<exists>req v pw u. op = Register req \<and> b_password (body req) = Some v
                \<and> castString e v = Inr (Some pw) \<and> pw \<noteq> []
                \<and> st' = st @ [u] \<and> u_id u \<notin> u_id ` set st
                \<and> password u = Some (bcrypt_hash e pw (bcrypt_genSalt e 10))))
       \<and> (hashed_once e creds st \<longrightarrow>
            (\<exists>creds'. hashed_once e creds' st' \<and> (\<forall>u \<in> set st. creds' (u_id u) = creds (u_id u))))
       \<and> (\<forall>d d' s s'. save e s d = Inr (d', s') \<longrightarrow>
             password (doc d') =
               (if isModified d ''password''
                then map_option (\<lambda>p. bcrypt_hash e p (bcrypt_genSalt e 10)) (password (doc d))
                else password (doc d)))
       \<and> (\<forall>fn ln em pw r. isNew (new_User e fn ln em pw r)
             \<and> isModified (new_User e fn ln em pw r) ''password'')"
proof (intro conjI impI)
  note kept = step_store [OF assms]
  show "map password (take (length st) st') = map password st"
    using kept
  proof
    assume a: "map u_id st' = map u_id st \<and> map password st' = map password st"
    then have "length st' = length st"
      by (auto dest: map_eq_imp_length_eq)
    with a show ?thesis by simp
  next
    assume "\<exists>req v pw u. op = Register req \<and> b_password (body req) = Some v
                \<and> castString e v = Inr (Some pw) \<and> pw \<noteq> []
                \<and> st' = st @ [u] \<and> u_id u \<notin> u_id ` set st
                \<and> password u = Some (bcrypt_hash e pw (bcrypt_genSalt e 10))"
    then obtain u where "st' = st @ [u]" by blast
    then show ?thesis by simp
  qed
  show "length st' = length st
          \<or> (\<exists>req v pw u. op = Register req \<and> b_password (body req) = Some v
                \<and> castString e v = Inr (Some pw) \<and> pw \<noteq> []
                \<and> st' = st @ [u] \<and> u_id u \<notin> u_id ` set st
                \<and> password u = Some (bcrypt_hash e pw (bcrypt_genSalt e 10)))"
    using kept
  proof
    assume "map u_id st' = map u_id st \<and> map password st' = map password st"
    then have "length st' = length st"
      by (auto dest: map_eq_imp_length_eq)
    then show ?thesis by (rule disjI1)
  next
    assume "\<exists>req v pw u. op = Register req \<and> b_password (body req) = Some v
                \<and> castString e v = Inr (Some pw) \<and> pw \<noteq> []
                \<and> st' = st @ [u] \<and> u_id u \<notin> u_id ` set st
                \<and> password u = Some (bcrypt_hash e pw (bcrypt_genSalt e 10))"
    then show ?thesis by (rule disjI2)
  qed
  show "\<exists>creds'. hashed_once e creds' st' \<and> (\<forall>u \<in> set st. creds' (u_id u) = creds (u_id u))"
    if inv: "hashed_once e creds st"
    using kept
  proof
    assume a: "map u_id st' = map u_id st \<and> map password st' = map password st"
    have "hashed_once e creds st' = hashed_once e creds st"
      using a by (intro hashed_once_cong) simp_all
    with inv have "hashed_once e creds st'"
      by simp
    then show ?thesis by blast
  next
    assume "\<exists>req v pw u. op = Register req \<and> b_password (body req) = Some v
                \<and> castString e v = Inr (Some pw) \<and> pw \<noteq> []
                \<and> st' = st @ [u] \<and> u_id u \<notin> u_id ` set st
                \<and> password u = Some (bcrypt_hash e pw (bcrypt_genSalt e 10))"
    then obtain pw u where u: "st' = st @ [u]" "u_id u \<notin> u_id ` set st"
      "password u = Some (bcrypt_hash e pw (bcrypt_genSalt e 10))"
      by blast
    have h: "hashed_once e (creds(u_id u := (pw, bcrypt_genSalt e 10))) st'"
      unfolding u(1) using inv u(2,3) by (rule hashed_once_append)
    have "(creds(u_id u := (pw, bcrypt_genSalt e 10))) (u_id v) = creds (u_id v)"
      if "v \<in> set st" for v
    proof -
      have "u_id v \<in> u_id ` set st"
        using that by (rule imageI)
      with u(2) have "u_id v \<noteq> u_id u"
        by metis
      then show ?thesis by simp
    qed
    with h show ?thesis by blast
  qed
  show "\<forall>d d' s s'. save e s d = Inr (d', s') \<longrightarrow>
             password (doc d') =
               (if isModified d ''password''
                then map_option (\<lambda>p. bcrypt_hash e p (bcrypt_genSalt e 10)) (password (doc d))
                else password (doc d))"
    by (intro allI impI) (rule save_password)
  show "\<forall>fn ln em pw r. isNew (new_User e fn ln em pw r)
             \<and> isModified (new_User e fn ln em pw r) ''password''"
    by (simp add: new_User_simps)
qed

theorem stored_password_hashed_once_witness:
  "map password (take (length example_store)
       (snd (step example_env example_store (UpdateProfile (as_ann new_profile)))))
     = map password example_store
   \<and> hashed_once example_env example_creds example_store
   \<and> (\<exists>creds'. hashed_once example_env creds'
                  (snd (step example_env example_store (Register register_bob)))
         \<and> (\<forall>u \<in> set example_store. creds' (u_id u) = example_creds (u_id u)))
   \<and> map password (snd (step example_env example_store (Register register_bob)))
       = [Some ''salt$1terces'', Some ''salt$22retnuh'']"
proof (intro conjI)
  have s1: "step example_env example_store (UpdateProfile (as_ann new_profile))
      = (fst (step example_env example_store (UpdateProfile (as_ann new_profile))),
         snd (step example_env example_store (UpdateProfile (as_ann new_profile))))"
    by simp
  show "map password (take (length example_store)
       (snd (step example_env example_store (UpdateProfile (as_ann new_profile)))))
     = map password example_store"
    by (rule stored_password_hashed_once [OF s1, THEN conjunct1])
  show inv: "hashed_once example_env example_creds example_store"
    by code_simp
  have s2: "step example_env example_store (Register register_bob)
      = (fst (step example_env example_store (Register register_bob)),
         snd (step example_env example_store (Register register_bob)))"
    by simp
  show "\<exists>creds'. hashed_once example_env creds'
                  (snd (step example_env example_store (Register register_bob)))
         \<and> (\<forall>u \<in> set example_store. creds' (u_id u) = example_creds (u_id u))"
    by (rule stored_password_hashed_once
          [OF s2, THEN conjunct2, THEN conjunct2, THEN conjunct1, rule_format, OF inv])
  show "map password (snd (step example_env example_store (Register register_bob)))
       = [Some ''salt$1terces'', Some ''salt$22retnuh'']"
    by code_simp
qed

end
